theory Spec2Isabelle
  imports Complex_Main
begin

section \<open>Receptive-field anchors and target building of the LFFD detection head\<close>

text \<open>
  The development embeds \<^verbatim>\<open>DetectionHead.gen_rf_anchors\<close> and
  \<^verbatim>\<open>DetectionHead.build_targets\<close> of \<^verbatim>\<open>src/models/lffd/detection.py\<close>.

  Tensors are nested lists, outermost dimension first. A last dimension of fixed size 2
  or 4 is a pair or a 4-tuple, so a tensor of shape \<open>(fh, fw, 4)\<close> is a list of \<open>fh\<close>
  rows, each a list of \<open>fw\<close> tuples \<open>(xmin, ymin, xmax, ymax)\<close>. Floating-point numbers
  are exact reals: rounding, infinities and NaN are not modelled. Where \<open>rf_size = 0\<close>
  the quotient by \<open>rf_size * 0.5\<close> is infinite or NaN in the program and 0 in the model,
  so every statement about the value of a normalised target carries \<open>rf_size \<noteq> 0\<close>.
  Python integers are unbounded, and so are \<open>rf_size\<close>, \<open>rf_stride\<close> and the
  feature-map dimensions here; the tensor library converts an integer operand to a
  scalar and raises when it does not fit (\<^verbatim>\<open>rfs *= self.rf_stride\<close> does at
  \<open>rf_stride = 2^64\<close>). That conversion is not modelled, so a statement that a call
  returns for malformed geometry is made for integers of the signed 64-bit range only.
  The other failures raised by the tensor library are values of \<open>error\<close>.
\<close>

subsection \<open>Data\<close>

type_synonym point = "real \<times> real"

type_synonym box = "real \<times> real \<times> real \<times> real"

datatype error = RuntimeError | IndexError

text \<open>
  The result of the matcher for one image: \<open>cls_mask\<close> and \<open>reg_mask\<close>, two integer
  grids (\<open>-2\<close> ignore, \<open>-1\<close> background, \<open>k \<ge> 0\<close> index of a ground-truth box).
\<close>

type_synonym masks = "int list list \<times> int list list"

text \<open>
  The fields of \<^verbatim>\<open>DetectionHead\<close> that the geometry reads. \<open>matcher\<close> is
  \<^verbatim>\<open>self.matcher\<close>, called as \<^verbatim>\<open>self.matcher(rf_centers, gt_boxes[i])\<close>: a
  function of the grid of centres and the boxes of one image, whose own failures, if it
  has any, are not part of this model. \<^verbatim>\<open>num_target_regs\<close> is 4 throughout, as the
  \<^verbatim>\<open>view(-1,4)\<close> of \<^verbatim>\<open>build_targets\<close> requires.
\<close>

record DetectionHead =
  rf_size :: int
  rf_stride :: int
  matcher :: "point list list \<Rightarrow> box list \<Rightarrow> masks"

subsection \<open>Tensor operations used by the anchor generator\<close>

text \<open>\<^verbatim>\<open>torch.arange(n)\<close>: the values \<open>0, \<dots>, n - 1\<close>; a negative bound raises.\<close>

definition arange :: "int \<Rightarrow> error + real list" where
  "arange n = (if n < 0 then Inl RuntimeError else Inr (map real [0..<nat n]))"

text \<open>
  \<^verbatim>\<open>torch.meshgrid(a, b)\<close> with matrix indexing: both results have one row per
  element of \<open>a\<close> and one column per element of \<open>b\<close>.
\<close>

definition meshgrid :: "real list \<Rightarrow> real list \<Rightarrow> real list list \<times> real list list" where
  "meshgrid a b = (map (\<lambda>v. map (\<lambda>_. v) b) a, map (\<lambda>_. b) a)"

text \<open>\<^verbatim>\<open>torch.stack([x, y], dim=-1)\<close> on two grids of one shape.\<close>

definition stack_last :: "real list list \<Rightarrow> real list list \<Rightarrow> point list list" where
  "stack_last x y = map2 zip x y"

text \<open>\<^verbatim>\<open>t.repeat(1,1,2)\<close> on a last dimension of size 2.\<close>

definition repeat_last :: "point \<Rightarrow> box" where
  "repeat_last p = (fst p, snd p, fst p, snd p)"

text \<open>\<^verbatim>\<open>torch.clamp(v, lo, hi)\<close>; where \<open>hi < lo\<close> the result is \<open>hi\<close>.\<close>

definition clamp :: "real \<Rightarrow> real \<Rightarrow> real \<Rightarrow> real" where
  "clamp v lo hi = min (max v lo) hi"

subsection \<open>\<^verbatim>\<open>gen_rf_anchors\<close>\<close>

text \<open>
  \<^verbatim>\<open>
  y,x = torch.meshgrid(torch.arange(fmaph, ...), torch.arange(fmapw, ...))
  rfs = torch.stack([x,y], dim=-1) + 0.5
  rfs *= self.rf_stride
  rfs = rfs.repeat(1,1,2)
  rfs[:,:,:2] = rfs[:,:,:2] - self.rf_size/2
  rfs[:,:,2:] = rfs[:,:,2:] + self.rf_size/2
  if clip:
      rfs[:,:,[0,2]] = torch.clamp(rfs[:,:,[0,2]],0,fmapw*self.rf_stride)
      rfs[:,:,[1,3]] = torch.clamp(rfs[:,:,[1,3]],0,fmaph*self.rf_stride)
  return rfs
  \<close>
  Each line is one binding of the definition; \<open>rf_size / 2\<close> is Python's true division.
  The conversion of \<open>rf_stride\<close> and of the clamp bounds to tensor scalars, which raises
  beyond the signed 64-bit range, is not part of the definition.
\<close>

definition gen_rf_anchors :: "DetectionHead \<Rightarrow> int \<Rightarrow> int \<Rightarrow> bool \<Rightarrow> error + box list list" where
  "gen_rf_anchors self fmaph fmapw clip =
     (case arange fmaph of Inl e \<Rightarrow> Inl e | Inr ys \<Rightarrow>
      (case arange fmapw of Inl e \<Rightarrow> Inl e | Inr xs \<Rightarrow>
        (let (y, x) = meshgrid ys xs;
             rfs = map (map (\<lambda>(a, b). (a + 1/2, b + 1/2))) (stack_last x y);
             rfs = map (map (\<lambda>(a, b). (a * real_of_int (rf_stride self),
                                          b * real_of_int (rf_stride self)))) rfs;
             rfs = map (map repeat_last) rfs;
             rfs = map (map (\<lambda>(x0, y0, x1, y1).
                      (x0 - real_of_int (rf_size self) / 2,
                       y0 - real_of_int (rf_size self) / 2, x1, y1))) rfs;
             rfs = map (map (\<lambda>(x0, y0, x1, y1).
                      (x0, y0, x1 + real_of_int (rf_size self) / 2,
                       y1 + real_of_int (rf_size self) / 2))) rfs;
             rfs = (if clip
                    then map (map (\<lambda>(x0, y0, x1, y1).
                           (x0, clamp y0 0 (real_of_int (fmaph * rf_stride self)),
                            x1, clamp y1 0 (real_of_int (fmaph * rf_stride self)))))
                         (map (map (\<lambda>(x0, y0, x1, y1).
                           (clamp x0 0 (real_of_int (fmapw * rf_stride self)), y0,
                            clamp x1 0 (real_of_int (fmapw * rf_stride self)), y1))) rfs)
                    else rfs)
         in Inr rfs)))"

text \<open>
  The anchor of cell \<open>(row, col)\<close> before clipping, and the clipped one, in closed form.
\<close>

definition rf_center :: "DetectionHead \<Rightarrow> nat \<Rightarrow> nat \<Rightarrow> point" where
  "rf_center self row col =
     ((real col + 1/2) * real_of_int (rf_stride self),
      (real row + 1/2) * real_of_int (rf_stride self))"

definition rf_anchor :: "DetectionHead \<Rightarrow> nat \<Rightarrow> nat \<Rightarrow> box" where
  "rf_anchor self row col =
     (fst (rf_center self row col) - real_of_int (rf_size self) / 2,
      snd (rf_center self row col) - real_of_int (rf_size self) / 2,
      fst (rf_center self row col) + real_of_int (rf_size self) / 2,
      snd (rf_center self row col) + real_of_int (rf_size self) / 2)"

definition clip_anchor :: "DetectionHead \<Rightarrow> int \<Rightarrow> int \<Rightarrow> box \<Rightarrow> box" where
  "clip_anchor self fmaph fmapw a =
     (case a of (x0, y0, x1, y1) \<Rightarrow>
        (clamp x0 0 (real_of_int (fmapw * rf_stride self)),
         clamp y0 0 (real_of_int (fmaph * rf_stride self)),
         clamp x1 0 (real_of_int (fmapw * rf_stride self)),
         clamp y1 0 (real_of_int (fmaph * rf_stride self))))"

subsection \<open>Tensor operations used by the target builder\<close>

text \<open>The five tensors that \<^verbatim>\<open>build_targets\<close> allocates, mutates and returns.\<close>

record targets =
  t_cls :: "int list list list"
  t_regs :: "box list list list"
  t_objness_mask :: "bool list list list"
  t_reg_mask :: "bool list list list"
  ignore :: "bool list list list"

text \<open>\<^verbatim>\<open>torch.zeros(bs, fh, fw)\<close> filled with the zero \<open>z\<close> of the element type.\<close>

definition zeros :: "nat \<Rightarrow> nat \<Rightarrow> nat \<Rightarrow> 'a \<Rightarrow> 'a list list list" where
  "zeros bs fh fw z = replicate bs (replicate fh (replicate fw z))"

text \<open>
  Indexing a grid of shape \<open>(fh, fw)\<close> with a boolean mask needs a mask of the same
  shape; the library raises an \<^verbatim>\<open>IndexError\<close> otherwise.
\<close>

definition has_shape :: "'a list list \<Rightarrow> nat \<Rightarrow> nat \<Rightarrow> bool" where
  "has_shape m fh fw \<longleftrightarrow> length m = fh \<and> list_all (\<lambda>row. length row = fw) m"

text \<open>\<^verbatim>\<open>t[mask] = v\<close> for a mask of the shape of \<open>t\<close>.\<close>

definition masked_fill :: "'a list list \<Rightarrow> bool list list \<Rightarrow> 'a \<Rightarrow> 'a list list" where
  "masked_fill t m v = map2 (map2 (\<lambda>x b. if b then v else x)) t m"

text \<open>
  \<^verbatim>\<open>t[idx >= 0] = gt[idx[idx >= 0], :]\<close>: the selected indices are read in row-major
  order and written back in the same order, so the cell \<open>(r, c)\<close> with \<open>idx[r][c] \<ge> 0\<close>
  receives \<open>gt[idx[r][c]]\<close>. The caller has checked the indices against the length of
  \<open>gt\<close>.
\<close>

definition masked_gather :: "box list list \<Rightarrow> int list list \<Rightarrow> box list \<Rightarrow> box list list" where
  "masked_gather t idx gt = map2 (map2 (\<lambda>x k. if 0 \<le> k then gt ! nat k else x)) t idx"

text \<open>\<^verbatim>\<open>t.view(fh, fw, 4)\<close> of a flat list of \<open>fh * fw\<close> rows.\<close>

definition unflatten :: "nat \<Rightarrow> nat \<Rightarrow> 'a list \<Rightarrow> 'a list list" where
  "unflatten fh fw flat = map (\<lambda>r. take fw (drop (r * fw) flat)) [0..<fh]"

text \<open>
  One row of \<^verbatim>\<open>(t_regs[i].view(-1,4) - rf_centers.view(-1,2).repeat(1,2)) / (rf_size*.5)\<close>.
  For \<open>rf_size = 0\<close> the program divides by \<open>0.0\<close> and stores an infinity or NaN
  without raising, where this quotient is 0: the value is to be read for
  \<open>rf_size \<noteq> 0\<close> only.
\<close>

definition normalize_reg :: "DetectionHead \<Rightarrow> box \<Rightarrow> box \<Rightarrow> box" where
  "normalize_reg self t c =
     (case t of (t0, t1, t2, t3) \<Rightarrow> case c of (c0, c1, c2, c3) \<Rightarrow>
        ((t0 - c0) / (real_of_int (rf_size self) * (1/2)),
         (t1 - c1) / (real_of_int (rf_size self) * (1/2)),
         (t2 - c2) / (real_of_int (rf_size self) * (1/2)),
         (t3 - c3) / (real_of_int (rf_size self) * (1/2))))"

subsection \<open>\<^verbatim>\<open>build_targets\<close>\<close>

text \<open>
  \<^verbatim>\<open>
  rf_anchors = self.gen_rf_anchors(fh, fw, device=device, dtype=dtype, clip=True)
  rf_centers = rf_anchors[:,:,:2]
  rf_centers[:, :, 0] = (rf_anchors[:,:,2] + rf_anchors[:,:,0]) / 2
  rf_centers[:, :, 1] = (rf_anchors[:,:,3] + rf_anchors[:,:,1]) / 2
  \<close>
  \<^verbatim>\<open>rf_centers\<close> is a view of the first two channels of the clipped anchors, so the
  two assignments write into \<^verbatim>\<open>rf_anchors\<close> itself. Each right-hand side is
  evaluated before its assignment; the second reads channels 1 and 3, which the first has
  not touched. The result is the grid that the loop passes to the matcher and subtracts
  in the normalisation.
\<close>

definition rf_centers :: "DetectionHead \<Rightarrow> int \<Rightarrow> int \<Rightarrow> error + point list list" where
  "rf_centers self fh fw =
     (case gen_rf_anchors self fh fw True of Inl e \<Rightarrow> Inl e | Inr rf_anchors \<Rightarrow>
        (let rf_anchors = map (map (\<lambda>(x0, y0, x1, y1). ((x1 + x0) / 2, y0, x1, y1))) rf_anchors;
             rf_anchors = map (map (\<lambda>(x0, y0, x1, y1). (x0, (y1 + y0) / 2, x1, y1))) rf_anchors
         in Inr (map (map (\<lambda>(x0, y0, x1, y1). (x0, y0))) rf_anchors)))"

text \<open>
  The body of the loop over the images, for an image with boxes:
  \<^verbatim>\<open>
  cls_mask,reg_mask = self.matcher(rf_centers, gt_boxes[i])
  t_cls[i, cls_mask>=0] = 1
  t_objness_mask[i, cls_mask>=0] = True
  t_reg_mask[i, reg_mask>=0] = True
  t_regs[i,reg_mask>=0] = gt_boxes[i][reg_mask[reg_mask>=0],:]
  ignore[i, cls_mask==-2] = True
  t_regs[i] = ((t_regs[i].view(-1,4) - rf_centers.view(-1,2).repeat(1,2))
                 / (self.rf_size*.5)).view(fh,fw,4)
  \<close>
  The first use of each mask as an index raises when its shape is not that of the
  feature map, and the gather from \<^verbatim>\<open>gt_boxes[i]\<close> raises on an index beyond its
  last box.
\<close>

definition loop_body ::
  "DetectionHead \<Rightarrow> nat \<Rightarrow> nat \<Rightarrow> point list list \<Rightarrow> box list list \<Rightarrow> nat \<Rightarrow> targets
     \<Rightarrow> error + targets" where
  "loop_body self fh fw centers gt_boxes i st =
     (let (cls_mask, reg_mask) = matcher self centers (gt_boxes ! i) in
      if \<not> has_shape cls_mask fh fw then Inl IndexError
      else
        let st = st\<lparr>t_cls := (t_cls st)
                   [i := masked_fill (t_cls st ! i) (map (map (\<lambda>k. 0 \<le> k)) cls_mask) 1]\<rparr>;
            st = st\<lparr>t_objness_mask := (t_objness_mask st)
                   [i := masked_fill (t_objness_mask st ! i)
                           (map (map (\<lambda>k. 0 \<le> k)) cls_mask) True]\<rparr>
        in
        if \<not> has_shape reg_mask fh fw then Inl IndexError
        else
          let st = st\<lparr>t_reg_mask := (t_reg_mask st)
                     [i := masked_fill (t_reg_mask st ! i)
                             (map (map (\<lambda>k. 0 \<le> k)) reg_mask) True]\<rparr>
          in
          if \<not> list_all (\<lambda>k. 0 \<le> k \<longrightarrow> nat k < length (gt_boxes ! i)) (concat reg_mask)
          then Inl IndexError
          else
            let st = st\<lparr>t_regs := (t_regs st)
                       [i := masked_gather (t_regs st ! i) reg_mask (gt_boxes ! i)]\<rparr>;
                st = st\<lparr>ignore := (ignore st)
                       [i := masked_fill (ignore st ! i)
                               (map (map (\<lambda>k. k = - 2)) cls_mask) True]\<rparr>;
                st = st\<lparr>t_regs := (t_regs st)
                       [i := unflatten fh fw
                               (map2 (normalize_reg self) (concat (t_regs st ! i))
                                  (map repeat_last (concat centers)))]\<rparr>
            in Inr st)"

text \<open>
  \<^verbatim>\<open>for i in range(batch_size)\<close>, over the list of the indices still to visit. An
  image without boxes is skipped; an error ends the loop.
\<close>

fun build_loop ::
  "DetectionHead \<Rightarrow> nat \<Rightarrow> nat \<Rightarrow> point list list \<Rightarrow> box list list \<Rightarrow> nat list \<Rightarrow> targets
     \<Rightarrow> error + targets" where
  "build_loop self fh fw centers gt_boxes [] st = Inr st"
| "build_loop self fh fw centers gt_boxes (i # is) st =
     (if length (gt_boxes ! i) = 0 then build_loop self fh fw centers gt_boxes is st
      else case loop_body self fh fw centers gt_boxes i st of
             Inl e \<Rightarrow> Inl e
           | Inr st' \<Rightarrow> build_loop self fh fw centers gt_boxes is st')"

text \<open>
  \<^verbatim>\<open>torch.zeros\<close> rejects a negative dimension, which is the first failure on a
  negative \<open>fh\<close> or \<open>fw\<close>.
\<close>

definition build_targets :: "DetectionHead \<Rightarrow> int \<times> int \<Rightarrow> box list list \<Rightarrow> error + targets" where
  "build_targets self fmap gt_boxes =
     (let batch_size = length gt_boxes; (fh, fw) = fmap in
      if fh < 0 \<or> fw < 0 then Inl RuntimeError
      else
        let st = \<lparr>t_cls = zeros batch_size (nat fh) (nat fw) 0,
                  t_regs = zeros batch_size (nat fh) (nat fw) (0, 0, 0, 0),
                  t_objness_mask = zeros batch_size (nat fh) (nat fw) False,
                  t_reg_mask = zeros batch_size (nat fh) (nat fw) False,
                  ignore = zeros batch_size (nat fh) (nat fw) False\<rparr>
        in case rf_centers self fh fw of
             Inl e \<Rightarrow> Inl e
           | Inr centers \<Rightarrow>
               build_loop self (nat fh) (nat fw) centers gt_boxes [0..<batch_size] st)"

subsection \<open>The matcher\<close>

text \<open>
  The class \<^verbatim>\<open>LFFDMatcher\<close> of \<^verbatim>\<open>utils/matcher.py\<close>, which
  \<^verbatim>\<open>DetectionHead.__init__\<close> instantiates with \<open>lower_scale\<close> and \<open>upper_scale\<close>,
  is not among the sources. The definitions of this subsection follow section 4.2 of the
  specification instead.
\<close>

text \<open>
  Modelled from the spec: \<^verbatim>\<open>LFFDMatcher\<close> is missing; the size of a box is the
  larger of its width and height.
\<close>

definition box_size :: "box \<Rightarrow> real" where
  "box_size b = (case b of (x0, y0, x1, y1) \<Rightarrow> max (x1 - x0) (y1 - y0))"

text \<open>
  Modelled from the spec: \<^verbatim>\<open>LFFDMatcher\<close> is missing; the area of a box orders the
  boxes that compete for a cell.
\<close>

definition box_area :: "box \<Rightarrow> real" where
  "box_area b = (case b of (x0, y0, x1, y1) \<Rightarrow> (x1 - x0) * (y1 - y0))"

text \<open>
  Modelled from the spec: \<^verbatim>\<open>LFFDMatcher\<close> is missing; a box is eligible for the head
  when its size lies in \<open>[lower_scale, upper_scale]\<close>, both ends included.
\<close>

definition eligible :: "int \<Rightarrow> int \<Rightarrow> box \<Rightarrow> bool" where
  "eligible lower_scale upper_scale b \<longleftrightarrow>
     real_of_int lower_scale \<le> box_size b \<and> box_size b \<le> real_of_int upper_scale"

text \<open>
  Modelled from the spec: \<^verbatim>\<open>LFFDMatcher\<close> is missing; a centre is a candidate for a
  box when it lies in the interior of the box.
\<close>

definition covers :: "box \<Rightarrow> point \<Rightarrow> bool" where
  "covers b p \<longleftrightarrow>
     (case b of (x0, y0, x1, y1) \<Rightarrow> x0 < fst p \<and> fst p < x1 \<and> y0 < snd p \<and> snd p < y1)"

text \<open>
  Modelled from the spec: \<^verbatim>\<open>LFFDMatcher\<close> is missing; of two candidates the one of
  smaller area wins, the one seen first on equal areas.
\<close>

definition smaller_first :: "nat \<times> box \<Rightarrow> nat \<times> box \<Rightarrow> nat \<times> box" where
  "smaller_first c best = (if box_area (snd c) < box_area (snd best) then c else best)"

text \<open>
  Modelled from the spec: \<^verbatim>\<open>LFFDMatcher\<close> is missing; a cell is assigned the index of
  the winning eligible box that holds its centre, \<open>-2\<close> (ignore) when only boxes that
  are not eligible hold it, and \<open>-1\<close> (background) otherwise.
\<close>

definition cell_assignment :: "int \<Rightarrow> int \<Rightarrow> box list \<Rightarrow> point \<Rightarrow> int" where
  "cell_assignment lower_scale upper_scale gt p =
     (case filter (\<lambda>(k, b). eligible lower_scale upper_scale b \<and> covers b p)
             (zip [0..<length gt] gt) of
        c # cs \<Rightarrow> int (fst (fold smaller_first cs c))
      | [] \<Rightarrow>
          if list_ex (\<lambda>b. \<not> eligible lower_scale upper_scale b \<and> covers b p) gt
          then - 2 else - 1)"

text \<open>
  Modelled from the spec: \<^verbatim>\<open>LFFDMatcher\<close> is missing; \<open>cls_mask\<close> holds the
  assignment of every cell, and \<open>reg_mask\<close> repeats the index of a matched cell and is
  \<open>-1\<close> elsewhere, so it carries no index at an ignore cell.
\<close>

definition LFFDMatcher :: "int \<Rightarrow> int \<Rightarrow> point list list \<Rightarrow> box list \<Rightarrow> masks" where
  "LFFDMatcher lower_scale upper_scale centers gt =
     (map (map (cell_assignment lower_scale upper_scale gt)) centers,
      map (map (\<lambda>p. let k = cell_assignment lower_scale upper_scale gt p
                     in if 0 \<le> k then k else - 1)) centers)"

text \<open>
  \<^verbatim>\<open>DetectionHead(head_idx, features, rf_size, rf_stride, lower_scale, upper_scale)\<close>,
  whose constructor sets \<^verbatim>\<open>self.matcher = LFFDMatcher(lower_scale,upper_scale)\<close>.
\<close>

definition lffd_head :: "int \<Rightarrow> int \<Rightarrow> int \<Rightarrow> int \<Rightarrow> DetectionHead" where
  "lffd_head rfsz rfst lower_scale upper_scale =
     \<lparr>rf_size = rfsz, rf_stride = rfst, matcher = LFFDMatcher lower_scale upper_scale\<rparr>"

subsection \<open>Derived notions used in the statements\<close>

text \<open>
  The centre that lines 118 to 121 compute for the cell \<open>(row, col)\<close>: the midpoint of
  the clipped anchor.
\<close>

definition clipped_center :: "DetectionHead \<Rightarrow> int \<Rightarrow> int \<Rightarrow> nat \<Rightarrow> nat \<Rightarrow> point" where
  "clipped_center self fh fw row col =
     (case clip_anchor self fh fw (rf_anchor self row col) of
        (x0, y0, x1, y1) \<Rightarrow> ((x1 + x0) / 2, (y1 + y0) / 2))"

text \<open>The grid of these centres, which is what the matcher receives.\<close>

definition centers_grid :: "DetectionHead \<Rightarrow> int \<Rightarrow> int \<Rightarrow> point list list" where
  "centers_grid self fh fw =
     map (\<lambda>row. map (clipped_center self fh fw row) [0..<nat fw]) [0..<nat fh]"

text \<open>
  The five slices of image \<open>j\<close>, and what one pass of the loop body does to them. The
  matcher's results are within what the tensor library accepts when both grids have
  the shape of the feature map and every index that is not negative addresses a box.
\<close>

type_synonym rows = "int list list \<times> box list list \<times> bool list list \<times> bool list list \<times> bool list list"

definition rows_at :: "targets \<Rightarrow> nat \<Rightarrow> rows" where
  "rows_at st j =
     (t_cls st ! j, t_regs st ! j, t_objness_mask st ! j, t_reg_mask st ! j, ignore st ! j)"

definition image_targets :: "DetectionHead \<Rightarrow> point list list \<Rightarrow> box list \<Rightarrow> rows \<Rightarrow> rows" where
  "image_targets self centers g rs =
     (case rs of (c, r, ob, m, ig) \<Rightarrow>
      case matcher self centers g of (cls_mask, reg_mask) \<Rightarrow>
        (masked_fill c (map (map (\<lambda>k. 0 \<le> k)) cls_mask) 1,
         map2 (map2 (normalize_reg self)) (masked_gather r reg_mask g)
           (map (map repeat_last) centers),
         masked_fill ob (map (map (\<lambda>k. 0 \<le> k)) cls_mask) True,
         masked_fill m (map (map (\<lambda>k. 0 \<le> k)) reg_mask) True,
         masked_fill ig (map (map (\<lambda>k. k = - 2)) cls_mask) True))"

definition matcher_returns :: "DetectionHead \<Rightarrow> nat \<Rightarrow> nat \<Rightarrow> point list list \<Rightarrow> box list \<Rightarrow> bool" where
  "matcher_returns self fh fw centers g \<longleftrightarrow>
     (case matcher self centers g of (cls_mask, reg_mask) \<Rightarrow>
        has_shape cls_mask fh fw \<and> has_shape reg_mask fh fw \<and>
        list_all (\<lambda>k. 0 \<le> k \<longrightarrow> nat k < length g) (concat reg_mask))"

definition batch_shape :: "'a list list list \<Rightarrow> nat \<Rightarrow> nat \<Rightarrow> nat \<Rightarrow> bool" where
  "batch_shape t bs fh fw \<longleftrightarrow> length t = bs \<and> list_all (\<lambda>g. has_shape g fh fw) t"

definition targets_shape :: "targets \<Rightarrow> nat \<Rightarrow> nat \<Rightarrow> nat \<Rightarrow> bool" where
  "targets_shape st bs fh fw \<longleftrightarrow>
     batch_shape (t_cls st) bs fh fw \<and> batch_shape (t_regs st) bs fh fw \<and>
     batch_shape (t_objness_mask st) bs fh fw \<and> batch_shape (t_reg_mask st) bs fh fw \<and>
     batch_shape (ignore st) bs fh fw"


text \<open>
  The reconstruction of a box from regression targets, as the round-trip property
  words it: \<open>box = anchor_center_repeated + regs * rf_size * 0.5\<close>.
\<close>

definition reconstruct :: "DetectionHead \<Rightarrow> point \<Rightarrow> box \<Rightarrow> box" where
  "reconstruct self center regs =
     (case regs of (r0, r1, r2, r3) \<Rightarrow> case repeat_last center of (c0, c1, c2, c3) \<Rightarrow>
        (c0 + r0 * real_of_int (rf_size self) * (1/2),
         c1 + r1 * real_of_int (rf_size self) * (1/2),
         c2 + r2 * real_of_int (rf_size self) * (1/2),
         c3 + r3 * real_of_int (rf_size self) * (1/2)))"

subsection \<open>A worked example\<close>

text \<open>
  A head with \<open>rf_size = 40\<close>, \<open>rf_stride = 20\<close> and scale range \<open>[20, 80]\<close> on a
  feature map of one row and two columns, and a batch of three images: one box of size
  40, no box, one box of size 19. The clipped anchors are \<open>(0, 0, 30, 20)\<close> and
  \<open>(10, 0, 40, 20)\<close>, so the matcher receives the centres \<open>(15, 10)\<close> and
  \<open>(25, 10)\<close>.
\<close>

abbreviation ex_head :: DetectionHead where
  "ex_head \<equiv> lffd_head 40 20 20 80"

abbreviation ex_boxes :: "box list list" where
  "ex_boxes \<equiv> [[(0, 0, 40, 40)], [], [(0, 0, 19, 19)]]"

abbreviation ex_targets :: targets where
  "ex_targets \<equiv>
     \<lparr>t_cls = [[[1, 1]], [[0, 0]], [[0, 0]]],
      t_regs = [[[(- (3 / 4), - (1 / 2), 5 / 4, 3 / 2), (- (5 / 4), - (1 / 2), 3 / 4, 3 / 2)]],
                [[(0, 0, 0, 0), (0, 0, 0, 0)]],
                [[(- (3 / 4), - (1 / 2), - (3 / 4), - (1 / 2)),
                  (- (5 / 4), - (1 / 2), - (5 / 4), - (1 / 2))]]],
      t_objness_mask = [[[True, True]], [[False, False]], [[False, False]]],
      t_reg_mask = [[[True, True]], [[False, False]], [[False, False]]],
      ignore = [[[False, False]], [[False, False]], [[True, False]]]\<rparr>"

subsection \<open>The anchor grid in closed form\<close>

lemma zip_const_map: "zip xs (map (\<lambda>_. v) xs) = map (\<lambda>u. (u, v)) xs"
  by (induction xs) simp_all

lemma stack_last_meshgrid:
  "stack_last (map (\<lambda>_. xs) ys) (map (\<lambda>v. map (\<lambda>_. v) xs) ys) =
     map (\<lambda>v. map (\<lambda>u. (u, v)) xs) ys"
  by (induction ys) (simp_all add: stack_last_def zip_const_map)

lemma gen_rf_anchors_lists:
  assumes "arange fmaph = Inr ys" and "arange fmapw = Inr xs"
  shows "gen_rf_anchors self fmaph fmapw clip =
     Inr (map (\<lambda>v. map (\<lambda>u.
       (let a = ((u + 1/2) * real_of_int (rf_stride self) - real_of_int (rf_size self) / 2,
                 (v + 1/2) * real_of_int (rf_stride self) - real_of_int (rf_size self) / 2,
                 (u + 1/2) * real_of_int (rf_stride self) + real_of_int (rf_size self) / 2,
                 (v + 1/2) * real_of_int (rf_stride self) + real_of_int (rf_size self) / 2)
        in if clip then clip_anchor self fmaph fmapw a else a)) xs) ys)"
  using assms
  by (simp add: gen_rf_anchors_def meshgrid_def stack_last_meshgrid
      repeat_last_def clip_anchor_def comp_def Let_def)

lemma gen_rf_anchors_closed:
  "gen_rf_anchors self fmaph fmapw clip =
     (if fmaph < 0 \<or> fmapw < 0 then Inl RuntimeError
      else Inr (map (\<lambda>row. map (\<lambda>col.
             if clip then clip_anchor self fmaph fmapw (rf_anchor self row col)
             else rf_anchor self row col) [0..<nat fmapw]) [0..<nat fmaph]))"
proof (cases "fmaph < 0 \<or> fmapw < 0")
  case True
  then show ?thesis
    by (auto simp: gen_rf_anchors_def arange_def)
next
  case False
  then have "arange fmaph = Inr (map real [0..<nat fmaph])"
    and "arange fmapw = Inr (map real [0..<nat fmapw])"
    by (simp_all add: arange_def)
  from gen_rf_anchors_lists [OF this] False show ?thesis
    by (simp add: rf_anchor_def rf_center_def comp_def Let_def)
qed

subsection \<open>Shapes, views and the loop\<close>

lemma rf_centers_closed:
  "rf_centers self fh fw =
     (if fh < 0 \<or> fw < 0 then Inl RuntimeError
      else Inr (map (\<lambda>row. map (clipped_center self fh fw row) [0..<nat fw]) [0..<nat fh]))"
  by (simp add: rf_centers_def gen_rf_anchors_closed clipped_center_def comp_def
      split_def Let_def)

lemma take_drop_concat:
  "\<lbrakk>list_all (\<lambda>row. length row = fw) A; r < length A\<rbrakk>
     \<Longrightarrow> take fw (drop (r * fw) (concat A)) = A ! r"
proof (induction A arbitrary: r)
  case Nil
  then show ?case by simp
next
  case (Cons a A)
  show ?case
  proof (cases r)
    case 0
    with Cons.prems show ?thesis by simp
  next
    case (Suc k)
    with Cons.prems have "take fw (drop (k * fw) (concat A)) = A ! k"
      by (intro Cons.IH) simp_all
    with Suc Cons.prems show ?thesis by simp
  qed
qed

lemma unflatten_concat:
  "has_shape A fh fw \<Longrightarrow> unflatten fh fw (concat A) = A"
  by (auto simp: has_shape_def unflatten_def take_drop_concat intro!: nth_equalityI)

lemma concat_map2_shape:
  "\<lbrakk>has_shape A fh fw; has_shape B fh fw\<rbrakk>
     \<Longrightarrow> map2 f (concat A) (concat B) = concat (map2 (map2 f) A B)"
proof (induction A arbitrary: B fh)
  case Nil
  then show ?case by simp
next
  case (Cons a A)
  then obtain b B' where B: "B = b # B'"
    by (cases B) (auto simp: has_shape_def)
  with Cons.prems have "has_shape A (length A) fw" "has_shape B' (length A) fw"
    and "length a = length b"
    by (auto simp: has_shape_def)
  with Cons.IH B show ?case by simp
qed

lemma has_shape_map2:
  "\<lbrakk>has_shape A fh fw; has_shape B fh fw\<rbrakk> \<Longrightarrow> has_shape (map2 (map2 f) A B) fh fw"
  by (auto simp: has_shape_def list_all_iff elim!: in_set_zipE)

lemma unflatten_map2:
  "\<lbrakk>has_shape A fh fw; has_shape B fh fw\<rbrakk>
     \<Longrightarrow> unflatten fh fw (map2 f (concat A) (concat B)) = map2 (map2 f) A B"
  by (simp add: concat_map2_shape unflatten_concat has_shape_map2)

lemma batch_shape_nth: "\<lbrakk>batch_shape t bs fh fw; j < bs\<rbrakk> \<Longrightarrow> has_shape (t ! j) fh fw"
  by (simp add: batch_shape_def list_all_length)

lemma batch_shape_length: "batch_shape t bs fh fw \<Longrightarrow> length t = bs"
  by (simp add: batch_shape_def)

lemma batch_shape_update:
  "\<lbrakk>batch_shape t bs fh fw; has_shape v fh fw\<rbrakk> \<Longrightarrow> batch_shape (t[i := v]) bs fh fw"
  using set_update_subset_insert [of t i v]
  by (auto simp: batch_shape_def list_all_iff)

lemma has_shape_map [simp]: "has_shape (map (map f) A) fh fw = has_shape A fh fw"
  by (auto simp: has_shape_def list_all_iff)

lemma has_shape_masked_fill:
  "\<lbrakk>has_shape t fh fw; has_shape m fh fw\<rbrakk> \<Longrightarrow> has_shape (masked_fill t m v) fh fw"
  by (simp add: masked_fill_def has_shape_map2)

lemma has_shape_masked_gather:
  "\<lbrakk>has_shape t fh fw; has_shape m fh fw\<rbrakk> \<Longrightarrow> has_shape (masked_gather t m g) fh fw"
  by (simp add: masked_gather_def has_shape_map2)

lemma concat_map_map: "concat (map (map f) A) = map f (concat A)"
  by (induction A) simp_all

lemma normalize_rows:
  "\<lbrakk>has_shape t fh fw; has_shape centers fh fw\<rbrakk>
     \<Longrightarrow> unflatten fh fw (map2 (normalize_reg self) (concat t) (map repeat_last (concat centers)))
         = map2 (map2 (normalize_reg self)) t (map (map repeat_last) centers)"
  using unflatten_map2 [of t fh fw "map (map repeat_last) centers" "normalize_reg self"]
  by (simp add: concat_map_map)

lemma loop_body_Inr:
  assumes "loop_body self fh fw centers gt i st = Inr st'"
    and "targets_shape st bs fh fw" and "i < bs" and "has_shape centers fh fw"
  shows "matcher_returns self fh fw centers (gt ! i)"
    and "rows_at st' i = image_targets self centers (gt ! i) (rows_at st i)"
    and "\<forall>j. j \<noteq> i \<longrightarrow> rows_at st' j = rows_at st j"
    and "targets_shape st' bs fh fw"
proof -
  obtain cls_mask reg_mask where m: "matcher self centers (gt ! i) = (cls_mask, reg_mask)"
    by (cases "matcher self centers (gt ! i)")
  from assms(1) m have sh: "has_shape cls_mask fh fw" "has_shape reg_mask fh fw"
    and idx: "list_all (\<lambda>k. 0 \<le> k \<longrightarrow> nat k < length (gt ! i)) (concat reg_mask)"
    by (auto simp: loop_body_def Let_def split: if_splits)
  from m sh idx show "matcher_returns self fh fw centers (gt ! i)"
    by (simp add: matcher_returns_def)
  from assms(2,3) have len: "i < length (t_cls st)" "i < length (t_regs st)"
    "i < length (t_objness_mask st)" "i < length (t_reg_mask st)" "i < length (ignore st)"
    and rsh: "has_shape (t_regs st ! i) fh fw"
    by (auto simp: targets_shape_def dest: batch_shape_length batch_shape_nth)
  from rsh sh have gsh: "has_shape (masked_gather (t_regs st ! i) reg_mask (gt ! i)) fh fw"
    by (simp add: has_shape_masked_gather)
  from assms(1) m sh idx len have st': "st' = st
      \<lparr>t_cls := (t_cls st)[i := masked_fill (t_cls st ! i) (map (map (\<lambda>k. 0 \<le> k)) cls_mask) 1],
       t_objness_mask := (t_objness_mask st)
         [i := masked_fill (t_objness_mask st ! i) (map (map (\<lambda>k. 0 \<le> k)) cls_mask) True],
       t_reg_mask := (t_reg_mask st)
         [i := masked_fill (t_reg_mask st ! i) (map (map (\<lambda>k. 0 \<le> k)) reg_mask) True],
       ignore := (ignore st)
         [i := masked_fill (ignore st ! i) (map (map (\<lambda>k. k = - 2)) cls_mask) True],
       t_regs := (t_regs st)
         [i := map2 (map2 (normalize_reg self)) (masked_gather (t_regs st ! i) reg_mask (gt ! i))
                 (map (map repeat_last) centers)]\<rparr>"
    using normalize_rows [OF gsh assms(4), of self]
    by (simp add: loop_body_def Let_def)
  from st' m len show "rows_at st' i = image_targets self centers (gt ! i) (rows_at st i)"
    by (simp add: rows_at_def image_targets_def)
  from st' show "\<forall>j. j \<noteq> i \<longrightarrow> rows_at st' j = rows_at st j"
    by (simp add: rows_at_def)
  from assms(2,4) sh gsh show "targets_shape st' bs fh fw"
    unfolding st' targets_shape_def using assms(3)
    by (auto intro!: batch_shape_update has_shape_masked_fill has_shape_map2
        dest: batch_shape_nth)
qed

lemma loop_body_returns:
  "matcher_returns self fh fw centers (gt ! i) \<Longrightarrow> \<exists>st'. loop_body self fh fw centers gt i st = Inr st'"
  by (auto simp: matcher_returns_def loop_body_def Let_def split: prod.splits)

lemma build_loop_returns:
  "\<forall>i\<in>set is. gt ! i \<noteq> [] \<longrightarrow> matcher_returns self fh fw centers (gt ! i)
     \<Longrightarrow> \<exists>st'. build_loop self fh fw centers gt is st = Inr st'"
proof (induction "is" arbitrary: st)
  case Nil
  then show ?case by simp
next
  case (Cons i "is")
  show ?case
  proof (cases "gt ! i = []")
    case True
    with Cons show ?thesis by simp
  next
    case False
    with Cons.prems obtain st1 where "loop_body self fh fw centers gt i st = Inr st1"
      using loop_body_returns [of self fh fw centers gt i st] by auto
    with False Cons show ?thesis by simp
  qed
qed

lemma build_loop_rows:
  assumes "build_loop self fh fw centers gt is st = Inr st'"
    and "distinct is" and "\<forall>i\<in>set is. i < bs"
    and "targets_shape st bs fh fw" and "has_shape centers fh fw"
  shows "rows_at st' j =
           (if j \<in> set is \<and> gt ! j \<noteq> []
            then image_targets self centers (gt ! j) (rows_at st j) else rows_at st j)"
    and "j \<in> set is \<Longrightarrow> gt ! j \<noteq> [] \<Longrightarrow> matcher_returns self fh fw centers (gt ! j)"
  using assms(1-4)
proof (induction "is" arbitrary: st)
  case Nil
  {
    case 1
    then show ?case by simp
  next
    case 2
    then show ?case by simp
  }
next
  case (Cons i "is")
  {
    case 1
    show ?case
    proof (cases "gt ! i = []")
      case True
      with "1" Cons.IH(1) [of st] show ?thesis by auto
    next
      case False
      with "1"(1) obtain st1 where
        b: "loop_body self fh fw centers gt i st = Inr st1"
        and l: "build_loop self fh fw centers gt is st1 = Inr st'"
        by (auto split: sum.splits)
      from "1" have i: "i < bs" by simp
      note lb = loop_body_Inr [OF b "1.prems"(4) i assms(5)]
      from "1" have "rows_at st' j =
           (if j \<in> set is \<and> gt ! j \<noteq> []
            then image_targets self centers (gt ! j) (rows_at st1 j) else rows_at st1 j)"
        by (intro Cons.IH(1) [OF l _ _ lb(4)]) simp_all
      with lb(2,3) "1.prems"(2) False show ?thesis by auto
    qed
  next
    case 2
    show ?case
    proof (cases "gt ! i = []")
      case True
      with "2" Cons.IH(2) [of st] show ?thesis by auto
    next
      case False
      with "2"(3) obtain st1 where
        b: "loop_body self fh fw centers gt i st = Inr st1"
        and l: "build_loop self fh fw centers gt is st1 = Inr st'"
        by (auto split: sum.splits)
      from "2" have i: "i < bs" by simp
      note lb = loop_body_Inr [OF b "2.prems"(6) i assms(5)]
      show ?thesis
      proof (cases "j = i")
        case True
        with lb(1) show ?thesis by simp
      next
        case False
        with "2" show ?thesis
          by (intro Cons.IH(2) [OF _ _ l _ _ lb(4)]) simp_all
      qed
    qed
  }
qed

subsection \<open>What \<^verbatim>\<open>build_targets\<close> returns for one image\<close>

lemma rf_centers_grid:
  "rf_centers self fh fw =
     (if fh < 0 \<or> fw < 0 then Inl RuntimeError else Inr (centers_grid self fh fw))"
  by (simp add: rf_centers_closed centers_grid_def)

lemma has_shape_centers_grid: "has_shape (centers_grid self fh fw) (nat fh) (nat fw)"
  by (simp add: has_shape_def centers_grid_def list_all_iff)

lemma has_shape_replicate: "has_shape (replicate fh (replicate fw z)) fh fw"
  by (simp add: has_shape_def list_all_iff)

lemma targets_shape_zeros:
  "targets_shape \<lparr>t_cls = zeros bs fh fw a, t_regs = zeros bs fh fw b,
      t_objness_mask = zeros bs fh fw c, t_reg_mask = zeros bs fh fw d,
      ignore = zeros bs fh fw e\<rparr> bs fh fw"
  by (simp add: targets_shape_def batch_shape_def zeros_def list_all_iff has_shape_replicate)

lemma map2_replicate_left:
  "length ys = n \<Longrightarrow> map2 f (replicate n z) ys = map (f z) ys"
  by (induction ys arbitrary: n) auto

lemma map2_map2_replicate:
  "has_shape M fh fw \<Longrightarrow>
     map2 (map2 f) (replicate fh (replicate fw z)) M = map (map (f z)) M"
proof -
  assume sh: "has_shape M fh fw"
  then have "map2 (map2 f) (replicate fh (replicate fw z)) M = map (map2 f (replicate fw z)) M"
    by (simp add: has_shape_def map2_replicate_left)
  also from sh have "\<dots> = map (map (f z)) M"
    by (auto simp: has_shape_def list_all_iff map2_replicate_left)
  finally show ?thesis .
qed

lemma masked_fill_replicate:
  "has_shape M fh fw \<Longrightarrow>
     masked_fill (replicate fh (replicate fw z)) (map (map P) M) v =
       map (map (\<lambda>k. if P k then v else z)) M"
  by (simp add: masked_fill_def map2_map2_replicate comp_def)

lemma masked_gather_replicate:
  "has_shape M fh fw \<Longrightarrow>
     masked_gather (replicate fh (replicate fw z)) M g =
       map (map (\<lambda>k. if 0 \<le> k then g ! nat k else z)) M"
  by (simp add: masked_gather_def map2_map2_replicate)

lemma rows_at_zeros:
  "j < bs \<Longrightarrow>
   rows_at \<lparr>t_cls = zeros bs fh fw a, t_regs = zeros bs fh fw b,
      t_objness_mask = zeros bs fh fw c, t_reg_mask = zeros bs fh fw d,
      ignore = zeros bs fh fw e\<rparr> j =
     (replicate fh (replicate fw a), replicate fh (replicate fw b),
      replicate fh (replicate fw c), replicate fh (replicate fw d),
      replicate fh (replicate fw e))"
  by (simp add: rows_at_def zeros_def)

lemma build_targets_rows:
  assumes "build_targets self (fh, fw) gt = Inr st" and "i < length gt"
  shows "0 \<le> fh \<and> 0 \<le> fw"
    and "gt ! i = [] \<Longrightarrow>
           rows_at st i =
             (replicate (nat fh) (replicate (nat fw) 0),
              replicate (nat fh) (replicate (nat fw) (0, 0, 0, 0)),
              replicate (nat fh) (replicate (nat fw) False),
              replicate (nat fh) (replicate (nat fw) False),
              replicate (nat fh) (replicate (nat fw) False))"
    and "gt ! i \<noteq> [] \<Longrightarrow> matcher_returns self (nat fh) (nat fw) (centers_grid self fh fw) (gt ! i)"
    and "gt ! i \<noteq> [] \<Longrightarrow>
           matcher self (centers_grid self fh fw) (gt ! i) = (cls_mask, reg_mask) \<Longrightarrow>
           rows_at st i =
             (map (map (\<lambda>k. if 0 \<le> k then 1 else 0)) cls_mask,
              map2 (map2 (normalize_reg self))
                (map (map (\<lambda>k. if 0 \<le> k then gt ! i ! nat k else (0, 0, 0, 0))) reg_mask)
                (map (map repeat_last) (centers_grid self fh fw)),
              map (map (\<lambda>k. 0 \<le> k)) cls_mask,
              map (map (\<lambda>k. 0 \<le> k)) reg_mask,
              map (map (\<lambda>k. k = - 2)) cls_mask)"
proof -
  from assms(1) show nn: "0 \<le> fh \<and> 0 \<le> fw"
    by (auto simp: build_targets_def Let_def split: if_splits)
  define st0 where "st0 = \<lparr>t_cls = zeros (length gt) (nat fh) (nat fw) (0::int),
      t_regs = zeros (length gt) (nat fh) (nat fw) (0::real, 0::real, 0::real, 0::real),
      t_objness_mask = zeros (length gt) (nat fh) (nat fw) False,
      t_reg_mask = zeros (length gt) (nat fh) (nat fw) False,
      ignore = zeros (length gt) (nat fh) (nat fw) False\<rparr>"
  from assms(1) nn have l: "build_loop self (nat fh) (nat fw) (centers_grid self fh fw) gt
      [0..<length gt] st0 = Inr st"
    by (simp add: build_targets_def Let_def rf_centers_grid st0_def)
  have sh: "targets_shape st0 (length gt) (nat fh) (nat fw)"
    unfolding st0_def by (rule targets_shape_zeros)
  have r0: "rows_at st0 i =
     (replicate (nat fh) (replicate (nat fw) 0), replicate (nat fh) (replicate (nat fw) (0, 0, 0, 0)),
      replicate (nat fh) (replicate (nat fw) False), replicate (nat fh) (replicate (nat fw) False),
      replicate (nat fh) (replicate (nat fw) False))"
    unfolding st0_def using assms(2) by (rule rows_at_zeros)
  note rows = build_loop_rows [OF l _ _ sh has_shape_centers_grid]
  from rows(1) [of i] r0 show "rows_at st i =
             (replicate (nat fh) (replicate (nat fw) 0),
              replicate (nat fh) (replicate (nat fw) (0, 0, 0, 0)),
              replicate (nat fh) (replicate (nat fw) False),
              replicate (nat fh) (replicate (nat fw) False),
              replicate (nat fh) (replicate (nat fw) False))" if "gt ! i = []"
    using that by simp
  from rows(2) [of i] assms(2)
  show mr: "matcher_returns self (nat fh) (nat fw) (centers_grid self fh fw) (gt ! i)"
    if "gt ! i \<noteq> []" using that by simp
  show "rows_at st i =
             (map (map (\<lambda>k. if 0 \<le> k then 1 else 0)) cls_mask,
              map2 (map2 (normalize_reg self))
                (map (map (\<lambda>k. if 0 \<le> k then gt ! i ! nat k else (0, 0, 0, 0))) reg_mask)
                (map (map repeat_last) (centers_grid self fh fw)),
              map (map (\<lambda>k. 0 \<le> k)) cls_mask,
              map (map (\<lambda>k. 0 \<le> k)) reg_mask,
              map (map (\<lambda>k. k = - 2)) cls_mask)"
    if ne: "gt ! i \<noteq> []"
      and m: "matcher self (centers_grid self fh fw) (gt ! i) = (cls_mask, reg_mask)"
  proof -
    from mr [OF ne] m have shs: "has_shape cls_mask (nat fh) (nat fw)"
      "has_shape reg_mask (nat fh) (nat fw)"
      by (simp_all add: matcher_returns_def)
    from rows(1) [of i] assms(2) ne
    have "rows_at st i = image_targets self (centers_grid self fh fw) (gt ! i) (rows_at st0 i)"
      by simp
    with m shs show ?thesis
      by (simp add: r0 image_targets_def masked_fill_replicate masked_gather_replicate)
  qed
qed

lemma grid_nth:
  "\<lbrakk>row < n; col < m\<rbrakk> \<Longrightarrow> map (\<lambda>r. map (f r) [0..<m]) [0..<n] ! row ! col = f row col"
  by simp


lemma has_shape_nth: "\<lbrakk>has_shape A fh fw; r < fh\<rbrakk> \<Longrightarrow> length (A ! r) = fw"
  by (simp add: has_shape_def list_all_length)

lemma clamp_upper: "clamp v lo hi \<le> hi"
  by (simp add: clamp_def)

lemma clamp_lower: "lo \<le> hi \<Longrightarrow> lo \<le> clamp v lo hi"
  by (simp add: clamp_def)

subsection \<open>Cells of the returned tensors\<close>

lemma nth_map_map:
  "\<lbrakk>has_shape M fh fw; r < fh; c < fw\<rbrakk> \<Longrightarrow> map (map f) M ! r ! c = f (M ! r ! c)"
  by (simp add: has_shape_def list_all_length)

lemma nth_map2_map2:
  "\<lbrakk>has_shape A fh fw; has_shape B fh fw; r < fh; c < fw\<rbrakk>
     \<Longrightarrow> map2 (map2 g) A B ! r ! c = g (A ! r ! c) (B ! r ! c)"
  by (simp add: has_shape_def list_all_length)

lemma nth_in_concat:
  "\<lbrakk>has_shape M fh fw; r < fh; c < fw\<rbrakk> \<Longrightarrow> M ! r ! c \<in> set (concat M)"
  by (auto simp: has_shape_def list_all_length intro!: bexI [of _ "M ! r"])

lemma centers_grid_nth:
  "\<lbrakk>r < nat fh; c < nat fw\<rbrakk> \<Longrightarrow> centers_grid self fh fw ! r ! c = clipped_center self fh fw r c"
  by (simp add: centers_grid_def)

lemma build_targets_cell:
  assumes "build_targets self (fh, fw) gt = Inr st" and "i < length gt" and "gt ! i \<noteq> []"
    and "matcher self (centers_grid self fh fw) (gt ! i) = (cls_mask, reg_mask)"
    and "r < nat fh" and "c < nat fw"
  shows "t_cls st ! i ! r ! c = (if 0 \<le> cls_mask ! r ! c then 1 else 0)"
    and "t_objness_mask st ! i ! r ! c \<longleftrightarrow> 0 \<le> cls_mask ! r ! c"
    and "ignore st ! i ! r ! c \<longleftrightarrow> cls_mask ! r ! c = - 2"
    and "t_reg_mask st ! i ! r ! c \<longleftrightarrow> 0 \<le> reg_mask ! r ! c"
    and "t_regs st ! i ! r ! c =
           normalize_reg self
             (if 0 \<le> reg_mask ! r ! c then gt ! i ! nat (reg_mask ! r ! c) else (0, 0, 0, 0))
             (repeat_last (clipped_center self fh fw r c))"
    and "0 \<le> reg_mask ! r ! c \<Longrightarrow> nat (reg_mask ! r ! c) < length (gt ! i)"
proof -
  note rows = build_targets_rows [OF assms(1,2)]
  from rows(3) [OF assms(3)] assms(4)
  have shc: "has_shape cls_mask (nat fh) (nat fw)" and shr: "has_shape reg_mask (nat fh) (nat fw)"
    and idx: "list_all (\<lambda>k. 0 \<le> k \<longrightarrow> nat k < length (gt ! i)) (concat reg_mask)"
    by (simp_all add: matcher_returns_def)
  note eq = rows(4) [OF assms(3,4), unfolded rows_at_def prod.inject]
  from eq shc assms(5,6) show "t_cls st ! i ! r ! c = (if 0 \<le> cls_mask ! r ! c then 1 else 0)"
    by (simp add: nth_map_map)
  from eq shc assms(5,6) show "t_objness_mask st ! i ! r ! c \<longleftrightarrow> 0 \<le> cls_mask ! r ! c"
    by (simp add: nth_map_map)
  from eq shc assms(5,6) show "ignore st ! i ! r ! c \<longleftrightarrow> cls_mask ! r ! c = - 2"
    by (simp add: nth_map_map)
  from eq shr assms(5,6) show "t_reg_mask st ! i ! r ! c \<longleftrightarrow> 0 \<le> reg_mask ! r ! c"
    by (simp add: nth_map_map)
  have "has_shape (map (map (\<lambda>k. if 0 \<le> k then gt ! i ! nat k else (0, 0, 0, 0))) reg_mask)
          (nat fh) (nat fw)"
    and "has_shape (map (map repeat_last) (centers_grid self fh fw)) (nat fh) (nat fw)"
    using shr has_shape_centers_grid [of self fh fw] by simp_all
  from nth_map2_map2 [OF this assms(5,6), of "normalize_reg self"] eq shr assms(5,6)
  show "t_regs st ! i ! r ! c =
           normalize_reg self
             (if 0 \<le> reg_mask ! r ! c then gt ! i ! nat (reg_mask ! r ! c) else (0, 0, 0, 0))
             (repeat_last (clipped_center self fh fw r c))"
    using has_shape_centers_grid [of self fh fw]
    by (simp add: nth_map_map centers_grid_nth)
  from nth_in_concat [OF shr assms(5,6)] idx
  show "nat (reg_mask ! r ! c) < length (gt ! i)" if "0 \<le> reg_mask ! r ! c"
    using that by (auto simp: list_all_iff)
qed

lemma build_targets_cell_empty:
  assumes "build_targets self (fh, fw) gt = Inr st" and "i < length gt" and "gt ! i = []"
    and "r < nat fh" and "c < nat fw"
  shows "t_cls st ! i ! r ! c = 0" and "t_regs st ! i ! r ! c = (0, 0, 0, 0)"
    and "\<not> t_objness_mask st ! i ! r ! c" and "\<not> t_reg_mask st ! i ! r ! c"
    and "\<not> ignore st ! i ! r ! c"
  using build_targets_rows(2) [OF assms(1,2,3)] assms(4,5)
  by (simp_all add: rows_at_def)

lemma build_targets_returns:
  assumes "0 \<le> fh" and "0 \<le> fw"
    and "\<forall>g\<in>set gt. g \<noteq> [] \<longrightarrow>
           matcher_returns self (nat fh) (nat fw) (centers_grid self fh fw) g"
  shows "\<exists>st. build_targets self (fh, fw) gt = Inr st"
proof -
  from assms(3) have "\<forall>i\<in>set [0..<length gt]. gt ! i \<noteq> [] \<longrightarrow>
      matcher_returns self (nat fh) (nat fw) (centers_grid self fh fw) (gt ! i)"
    by simp
  from build_loop_returns [OF this] assms(1,2) show ?thesis
    by (simp add: build_targets_def Let_def rf_centers_grid)
qed

lemma build_loop_shape:
  assumes "build_loop self fh fw centers gt is st = Inr st'"
    and "\<forall>i\<in>set is. i < bs" and "targets_shape st bs fh fw" and "has_shape centers fh fw"
  shows "targets_shape st' bs fh fw"
  using assms(1-3)
proof (induction "is" arbitrary: st)
  case Nil
  then show ?case by simp
next
  case (Cons i "is")
  show ?case
  proof (cases "gt ! i = []")
    case True
    with Cons show ?thesis by simp
  next
    case False
    with Cons.prems(1) obtain st1 where
      b: "loop_body self fh fw centers gt i st = Inr st1"
      and l: "build_loop self fh fw centers gt is st1 = Inr st'"
      by (auto split: sum.splits)
    from Cons.prems have "i < bs" by simp
    from loop_body_Inr(4) [OF b Cons.prems(3) this assms(4)] Cons.prems(2) show ?thesis
      by (intro Cons.IH [OF l]) simp_all
  qed
qed

lemma build_targets_shape:
  assumes "build_targets self (fh, fw) gt = Inr st"
  shows "targets_shape st (length gt) (nat fh) (nat fw)"
proof -
  from assms have nn: "0 \<le> fh \<and> 0 \<le> fw"
    by (auto simp: build_targets_def Let_def split: if_splits)
  with assms have "build_loop self (nat fh) (nat fw) (centers_grid self fh fw) gt [0..<length gt]
      \<lparr>t_cls = zeros (length gt) (nat fh) (nat fw) 0,
       t_regs = zeros (length gt) (nat fh) (nat fw) (0, 0, 0, 0),
       t_objness_mask = zeros (length gt) (nat fh) (nat fw) False,
       t_reg_mask = zeros (length gt) (nat fh) (nat fw) False,
       ignore = zeros (length gt) (nat fh) (nat fw) False\<rparr> = Inr st"
    by (simp add: build_targets_def Let_def rf_centers_grid)
  from build_loop_shape [OF this _ targets_shape_zeros has_shape_centers_grid] show ?thesis
    by simp
qed

subsection \<open>The modelled matcher stays within what the tensor library accepts\<close>

lemma fold_smaller_first_mem: "fold smaller_first ys y \<in> set (y # ys)"
proof (induction ys arbitrary: y)
  case Nil
  show ?case by simp
next
  case (Cons a ys)
  have "fold smaller_first ys (smaller_first a y) \<in> set (smaller_first a y # ys)"
    by (rule Cons.IH)
  moreover have "smaller_first a y = a \<or> smaller_first a y = y"
    by (simp add: smaller_first_def)
  ultimately show ?case by auto
qed

lemma cell_assignment_range:
  "cell_assignment lo hi g p = - 2 \<or> cell_assignment lo hi g p = - 1 \<or>
   (0 \<le> cell_assignment lo hi g p \<and> nat (cell_assignment lo hi g p) < length g)"
proof (cases "filter (\<lambda>(k, b). eligible lo hi b \<and> covers b p) (zip [0..<length g] g)")
  case Nil
  then show ?thesis by (simp add: cell_assignment_def)
next
  case (Cons x xs)
  have "fold smaller_first xs x \<in> set (x # xs)"
    by (rule fold_smaller_first_mem)
  moreover have "set (x # xs) \<subseteq> set (zip [0..<length g] g)"
    unfolding Cons [symmetric] by (rule filter_is_subset)
  ultimately have "fold smaller_first xs x \<in> set (zip [0..<length g] g)"
    by (rule subsetD [rotated])
  then have "fst (fold smaller_first xs x) < length g"
    by (auto simp: in_set_zip)
  with Cons show ?thesis by (simp add: cell_assignment_def)
qed

lemma LFFDMatcher_returns:
  "has_shape centers fh fw \<Longrightarrow>
     matcher_returns (lffd_head rfsz rfst lo hi) fh fw centers g"
proof -
  assume sh: "has_shape centers fh fw"
  have idx: "nat (cell_assignment lo hi g p) < length g" if "0 \<le> cell_assignment lo hi g p" for p
    using cell_assignment_range [of lo hi g p] that by auto
  have "list_all (\<lambda>k. 0 \<le> k \<longrightarrow> nat k < length g)
          (concat (map (map (\<lambda>p. let k = cell_assignment lo hi g p
                                 in if 0 \<le> k then k else - 1)) centers))"
    unfolding list_all_iff Let_def
  proof
    fix k
    assume "k \<in> set (concat (map (map (\<lambda>p. if 0 \<le> cell_assignment lo hi g p
                                then cell_assignment lo hi g p else - 1)) centers))"
    then show "0 \<le> k \<longrightarrow> nat k < length g"
      by (auto split: if_splits intro: idx)
  qed
  with sh show ?thesis
    by (simp add: matcher_returns_def lffd_head_def LFFDMatcher_def)
qed

subsection \<open>Lengths and the sign of the centres\<close>

lemma targets_shape_lengths:
  "targets_shape st bs fh fw \<Longrightarrow>
     length (t_cls st) = bs \<and> length (t_regs st) = bs \<and> length (t_objness_mask st) = bs \<and>
     length (t_reg_mask st) = bs \<and> length (ignore st) = bs"
  by (simp add: targets_shape_def batch_shape_def)

lemma clamp_mid_pos:
  "\<lbrakk>0 < v; 0 < B\<rbrakk> \<Longrightarrow> 0 < (clamp (v + s) 0 B + clamp (v - s) 0 B) / 2"
  by (simp add: clamp_def min_def max_def)

lemma clamp_mid_neg:
  "B < 0 \<Longrightarrow> (clamp a 0 B + clamp b 0 B) / 2 < 0"
  by (simp add: clamp_def min_def max_def)

lemma clipped_center_nonzero:
  assumes "rf_stride self \<noteq> 0" and "r < nat fh" and "c < nat fw"
  shows "fst (clipped_center self fh fw r c) \<noteq> 0" and "snd (clipped_center self fh fw r c) \<noteq> 0"
proof -
  let ?s = "real_of_int (rf_size self) / 2"
  let ?W = "real_of_int (fw * rf_stride self)"
  let ?H = "real_of_int (fh * rf_stride self)"
  have c: "clipped_center self fh fw r c =
      ((clamp (fst (rf_center self r c) + ?s) 0 ?W + clamp (fst (rf_center self r c) - ?s) 0 ?W) / 2,
       (clamp (snd (rf_center self r c) + ?s) 0 ?H + clamp (snd (rf_center self r c) - ?s) 0 ?H) / 2)"
    by (simp add: clipped_center_def clip_anchor_def rf_anchor_def del: of_int_mult)
  from assms(2,3) have dims: "0 < fh" "0 < fw"
    by simp_all
  show "fst (clipped_center self fh fw r c) \<noteq> 0"
  proof (cases "0 < rf_stride self")
    case True
    with dims have "0 < ?W" and "0 < fst (rf_center self r c)"
      by (simp_all add: rf_center_def)
    from clamp_mid_pos [OF this(2,1), of ?s] show ?thesis
      unfolding c by simp
  next
    case False
    with assms(1) have "rf_stride self < 0"
      by simp
    with dims have "fw * rf_stride self < 0"
      by (simp add: mult_pos_neg)
    then have "?W < 0"
      by (simp only: of_int_less_0_iff)
    from clamp_mid_neg [OF this] show ?thesis
      unfolding c by (simp add: less_imp_neq del: of_int_mult)
  qed
  show "snd (clipped_center self fh fw r c) \<noteq> 0"
  proof (cases "0 < rf_stride self")
    case True
    with dims have "0 < ?H" and "0 < snd (rf_center self r c)"
      by (simp_all add: rf_center_def)
    from clamp_mid_pos [OF this(2,1), of ?s] show ?thesis
      unfolding c by simp
  next
    case False
    with assms(1) have "rf_stride self < 0"
      by simp
    with dims have "fh * rf_stride self < 0"
      by (simp add: mult_pos_neg)
    then have "?H < 0"
      by (simp only: of_int_less_0_iff)
    from clamp_mid_neg [OF this] show ?thesis
      unfolding c by (simp add: less_imp_neq del: of_int_mult)
  qed
qed

subsection \<open>Reconstruction undoes the normalisation\<close>

lemma reconstruct_normalize_reg:
  "rf_size self \<noteq> 0 \<Longrightarrow> reconstruct self p (normalize_reg self b (repeat_last p)) = b"
  by (cases b; cases p) (simp add: reconstruct_def normalize_reg_def repeat_last_def field_simps)

subsection \<open>The matcher is only ever given the grid of clipped centres\<close>

lemma centers_grid_matcher_update [simp]:
  "centers_grid (self\<lparr>matcher := m\<rparr>) fh fw = centers_grid self fh fw"
  by (simp add: centers_grid_def clipped_center_def clip_anchor_def rf_anchor_def rf_center_def)

lemma normalize_reg_matcher_update [simp]:
  "normalize_reg (self\<lparr>matcher := m\<rparr>) = normalize_reg self"
  by (simp add: normalize_reg_def fun_eq_iff)

lemma loop_body_matcher_update:
  "loop_body (self\<lparr>matcher := \<lambda>cs. matcher self centers\<rparr>) fh fw centers gt i st =
     loop_body self fh fw centers gt i st"
  by (simp add: loop_body_def Let_def split_def)

lemma build_loop_matcher_update:
  "build_loop (self\<lparr>matcher := \<lambda>cs. matcher self centers\<rparr>) fh fw centers gt is st =
     build_loop self fh fw centers gt is st"
  by (induction "is" arbitrary: st) (simp_all add: loop_body_matcher_update split: sum.splits)

lemma build_targets_matcher_update:
  "build_targets (self\<lparr>matcher := \<lambda>cs. matcher self (centers_grid self fh fw)\<rparr>) (fh, fw) gt =
     build_targets self (fh, fw) gt"
  by (simp add: build_targets_def Let_def rf_centers_grid build_loop_matcher_update)

lemma clamp_id: "\<lbrakk>lo \<le> v; v \<le> hi\<rbrakk> \<Longrightarrow> clamp v lo hi = v"
  by (simp add: clamp_def)

subsection \<open>Negative feature-map dimensions\<close>


subsection \<open>What the modelled matcher assigns to a cell\<close>





subsection \<open>The worked example, evaluated\<close>

lemma ex_build_targets: "build_targets ex_head (1, 2) ex_boxes = Inr ex_targets"
  by code_simp

lemma ex_rf_centers: "rf_centers ex_head 1 2 = Inr [[(15, 10), (25, 10)]]"
  by code_simp

section \<open>The claims\<close>




text \<open>
  C2, as stated, fails: \<^verbatim>\<open>build_targets\<close> generates the anchors with
  \<^verbatim>\<open>clip=True\<close> and takes the midpoints of the clipped boxes as centres. In the worked
  example the matcher receives \<open>(15, 10)\<close> and \<open>(25, 10)\<close>, not the unclipped centres
  \<open>(10, 10)\<close> and \<open>(30, 10)\<close>.
\<close>

theorem matcher_centers_counterexample:
  "rf_centers ex_head 1 2 = Inr [[(15, 10), (25, 10)]] \<and>
   rf_center ex_head 0 0 = (10, 10) \<and> rf_center ex_head 0 1 = (30, 10) \<and>
   rf_centers ex_head 1 2 \<noteq> Inr [[rf_center ex_head 0 0, rf_center ex_head 0 1]]"
proof -
  have "rf_center ex_head 0 0 = (10, 10)" and "rf_center ex_head 0 1 = (30, 10)"
    by (simp_all add: rf_center_def lffd_head_def)
  with ex_rf_centers show ?thesis
    by simp
qed

text \<open>
  C2, amended: the centres that \<^verbatim>\<open>build_targets\<close> passes to the matcher are, for
  every cell, the midpoints of the clipped anchor, \<open>((clamp xmax + clamp xmin) / 2,
  (clamp ymax + clamp ymin) / 2)\<close>; a coordinate of such a centre equals the unclipped
  \<open>(col + 0.5) * rf_stride\<close> or \<open>(row + 0.5) * rf_stride\<close> at the cells where clipping
  leaves the anchor's extent along that axis unchanged. That the matcher is given this
  grid and no other is stated for every matcher at once: replacing the matcher by one
  that ignores its first argument and looks at this grid instead changes nothing.
\<close>

theorem matcher_receives_clipped_centers:
  assumes "0 \<le> fh" and "0 \<le> fw"
  shows "rf_centers self fh fw = Inr (centers_grid self fh fw) \<and>
         build_targets (self\<lparr>matcher := \<lambda>centers. matcher self (centers_grid self fh fw)\<rparr>)
             (fh, fw) gt =
           build_targets self (fh, fw) gt \<and>
         (\<forall>row<nat fh. \<forall>col<nat fw.
            case rf_anchor self row col of (x0, y0, x1, y1) \<Rightarrow>
              centers_grid self fh fw ! row ! col =
                ((clamp x1 0 (real_of_int (fw * rf_stride self)) +
                  clamp x0 0 (real_of_int (fw * rf_stride self))) / 2,
                 (clamp y1 0 (real_of_int (fh * rf_stride self)) +
                  clamp y0 0 (real_of_int (fh * rf_stride self))) / 2) \<and>
              (0 \<le> x0 \<and> x0 \<le> real_of_int (fw * rf_stride self) \<and>
               0 \<le> x1 \<and> x1 \<le> real_of_int (fw * rf_stride self) \<longrightarrow>
                 fst (centers_grid self fh fw ! row ! col) = fst (rf_center self row col)) \<and>
              (0 \<le> y0 \<and> y0 \<le> real_of_int (fh * rf_stride self) \<and>
               0 \<le> y1 \<and> y1 \<le> real_of_int (fh * rf_stride self) \<longrightarrow>
                 snd (centers_grid self fh fw ! row ! col) = snd (rf_center self row col)))"
proof (intro conjI allI impI)
  from assms show "rf_centers self fh fw = Inr (centers_grid self fh fw)"
    by (simp add: rf_centers_grid)
  show "build_targets (self\<lparr>matcher := \<lambda>centers. matcher self (centers_grid self fh fw)\<rparr>)
             (fh, fw) gt =
           build_targets self (fh, fw) gt"
    by (rule build_targets_matcher_update)
  fix row col
  assume rc: "row < nat fh" "col < nat fw"
  obtain x0 y0 x1 y1 where a: "rf_anchor self row col = (x0, y0, x1, y1)"
    by (cases "rf_anchor self row col")
  let ?W = "real_of_int (fw * rf_stride self)"
  let ?H = "real_of_int (fh * rf_stride self)"
  from a have mid: "(x1 + x0) / 2 = fst (rf_center self row col)"
    "(y1 + y0) / 2 = snd (rf_center self row col)"
    by (auto simp: rf_anchor_def)
  from rc a have g: "centers_grid self fh fw ! row ! col =
      ((clamp x1 0 ?W + clamp x0 0 ?W) / 2, (clamp y1 0 ?H + clamp y0 0 ?H) / 2)"
    by (simp add: centers_grid_nth clipped_center_def clip_anchor_def del: of_int_mult)
  have x: "fst (centers_grid self fh fw ! row ! col) = fst (rf_center self row col)"
    if "0 \<le> x0 \<and> x0 \<le> ?W \<and> 0 \<le> x1 \<and> x1 \<le> ?W"
    using that g mid(1) by (simp add: clamp_id del: of_int_mult)
  have y: "snd (centers_grid self fh fw ! row ! col) = snd (rf_center self row col)"
    if "0 \<le> y0 \<and> y0 \<le> ?H \<and> 0 \<le> y1 \<and> y1 \<le> ?H"
    using that g mid(2) by (simp add: clamp_id del: of_int_mult)
  from a g x y show "case rf_anchor self row col of (x0, y0, x1, y1) \<Rightarrow>
              centers_grid self fh fw ! row ! col =
                ((clamp x1 0 (real_of_int (fw * rf_stride self)) +
                  clamp x0 0 (real_of_int (fw * rf_stride self))) / 2,
                 (clamp y1 0 (real_of_int (fh * rf_stride self)) +
                  clamp y0 0 (real_of_int (fh * rf_stride self))) / 2) \<and>
              (0 \<le> x0 \<and> x0 \<le> real_of_int (fw * rf_stride self) \<and>
               0 \<le> x1 \<and> x1 \<le> real_of_int (fw * rf_stride self) \<longrightarrow>
                 fst (centers_grid self fh fw ! row ! col) = fst (rf_center self row col)) \<and>
              (0 \<le> y0 \<and> y0 \<le> real_of_int (fh * rf_stride self) \<and>
               0 \<le> y1 \<and> y1 \<le> real_of_int (fh * rf_stride self) \<longrightarrow>
                 snd (centers_grid self fh fw ! row ! col) = snd (rf_center self row col))"
    by (simp del: of_int_mult)
qed

theorem matcher_receives_clipped_centers_witness:
  "(0::int) \<le> 3 \<and> (0::int) \<le> 3 \<and>
   rf_centers ex_head 3 3 = Inr (centers_grid ex_head 3 3) \<and>
   rf_anchor ex_head 1 1 = (10, 10, 50, 50) \<and>
   centers_grid ex_head 3 3 ! 1 ! 1 = (30, 30) \<and>
   rf_center ex_head 1 1 = (30, 30) \<and>
   rf_anchor ex_head 0 2 = (30, - 10, 70, 30) \<and>
   centers_grid ex_head 3 3 ! 0 ! 2 = ((60 + 30) / 2, (30 + 0) / 2) \<and>
   rf_center ex_head 0 2 = (50, 10)"
proof -
  have a: "rf_anchor ex_head 1 1 = (10, 10, 50, 50)" "rf_anchor ex_head 0 2 = (30, - 10, 70, 30)"
    and c: "rf_center ex_head 1 1 = (30, 30)" "rf_center ex_head 0 2 = (50, 10)"
    by (simp_all add: rf_anchor_def rf_center_def lffd_head_def)
  note t = matcher_receives_clipped_centers [of 3 3 ex_head "[]"]
  from t have r: "rf_centers ex_head 3 3 = Inr (centers_grid ex_head 3 3)"
    by simp
  from t have "\<forall>row<nat 3. \<forall>col<nat 3.
            case rf_anchor ex_head row col of (x0, y0, x1, y1) \<Rightarrow>
              centers_grid ex_head 3 3 ! row ! col =
                ((clamp x1 0 (real_of_int (3 * rf_stride ex_head)) +
                  clamp x0 0 (real_of_int (3 * rf_stride ex_head))) / 2,
                 (clamp y1 0 (real_of_int (3 * rf_stride ex_head)) +
                  clamp y0 0 (real_of_int (3 * rf_stride ex_head))) / 2)"
    by (simp add: split_def del: of_int_mult)
  then have "case rf_anchor ex_head 1 1 of (x0, y0, x1, y1) \<Rightarrow>
              centers_grid ex_head 3 3 ! 1 ! 1 =
                ((clamp x1 0 (real_of_int (3 * rf_stride ex_head)) +
                  clamp x0 0 (real_of_int (3 * rf_stride ex_head))) / 2,
                 (clamp y1 0 (real_of_int (3 * rf_stride ex_head)) +
                  clamp y0 0 (real_of_int (3 * rf_stride ex_head))) / 2)"
    and "case rf_anchor ex_head 0 2 of (x0, y0, x1, y1) \<Rightarrow>
              centers_grid ex_head 3 3 ! 0 ! 2 =
                ((clamp x1 0 (real_of_int (3 * rf_stride ex_head)) +
                  clamp x0 0 (real_of_int (3 * rf_stride ex_head))) / 2,
                 (clamp y1 0 (real_of_int (3 * rf_stride ex_head)) +
                  clamp y0 0 (real_of_int (3 * rf_stride ex_head))) / 2)"
    by simp_all
  then have "centers_grid ex_head 3 3 ! 1 ! 1 = (30, 30)"
    and "centers_grid ex_head 3 3 ! 0 ! 2 = ((60 + 30) / 2, (30 + 0) / 2)"
    unfolding a by (simp_all add: clamp_def lffd_head_def)
  with a c r show ?thesis
    by simp
qed

text \<open>
  C3: for \<open>fmaph, fmapw \<ge> 1\<close> and any \<open>rf_size\<close>, \<open>rf_stride\<close>,
  \<^verbatim>\<open>gen_rf_anchors\<close> with \<^verbatim>\<open>clip=False\<close> returns a grid of \<open>fmaph\<close> rows of
  \<open>fmapw\<close> boxes, whose entry at \<open>(row, col)\<close> is the centre
  \<open>((col + 0.5) * rf_stride, (row + 0.5) * rf_stride)\<close> moved by \<open>rf_size / 2\<close> to
  either side; the box of cell \<open>(0, 0)\<close> has its centre at
  \<open>(rf_stride / 2, rf_stride / 2)\<close>.
\<close>

theorem gen_rf_anchors_unclipped:
  assumes "1 \<le> fmaph" and "1 \<le> fmapw"
  shows "\<exists>rfs. gen_rf_anchors self fmaph fmapw False = Inr rfs \<and>
           length rfs = nat fmaph \<and>
           (\<forall>row<nat fmaph. length (rfs ! row) = nat fmapw \<and>
              (\<forall>col<nat fmapw.
                 rfs ! row ! col =
                   ((real col + 1/2) * real_of_int (rf_stride self) - real_of_int (rf_size self) / 2,
                    (real row + 1/2) * real_of_int (rf_stride self) - real_of_int (rf_size self) / 2,
                    (real col + 1/2) * real_of_int (rf_stride self) + real_of_int (rf_size self) / 2,
                    (real row + 1/2) * real_of_int (rf_stride self) + real_of_int (rf_size self) / 2))) \<and>
           (case rfs ! 0 ! 0 of (x0, y0, x1, y1) \<Rightarrow>
              ((x0 + x1) / 2, (y0 + y1) / 2) =
                (real_of_int (rf_stride self) / 2, real_of_int (rf_stride self) / 2))"
proof -
  let ?rfs = "map (\<lambda>row. map (rf_anchor self row) [0..<nat fmapw]) [0..<nat fmaph]"
  from assms have "gen_rf_anchors self fmaph fmapw False = Inr ?rfs"
    by (simp add: gen_rf_anchors_closed)
  moreover have "length ?rfs = nat fmaph"
    by simp
  moreover have "\<forall>row<nat fmaph. length (?rfs ! row) = nat fmapw \<and>
              (\<forall>col<nat fmapw.
                 ?rfs ! row ! col =
                   ((real col + 1/2) * real_of_int (rf_stride self) - real_of_int (rf_size self) / 2,
                    (real row + 1/2) * real_of_int (rf_stride self) - real_of_int (rf_size self) / 2,
                    (real col + 1/2) * real_of_int (rf_stride self) + real_of_int (rf_size self) / 2,
                    (real row + 1/2) * real_of_int (rf_stride self) + real_of_int (rf_size self) / 2))"
    by (simp add: rf_anchor_def rf_center_def)
  moreover from assms have "?rfs ! 0 ! 0 = rf_anchor self 0 0"
    by (intro grid_nth) simp_all
  then have "(case ?rfs ! 0 ! 0 of (x0, y0, x1, y1) \<Rightarrow>
              ((x0 + x1) / 2, (y0 + y1) / 2) =
                (real_of_int (rf_stride self) / 2, real_of_int (rf_stride self) / 2))"
    by (simp add: rf_anchor_def rf_center_def)
  ultimately show ?thesis
    by (intro exI [of _ ?rfs]) blast
qed

theorem gen_rf_anchors_unclipped_witness:
  "(1::int) \<le> 2 \<and> (1::int) \<le> 3 \<and>
   (\<exists>rfs. gen_rf_anchors (lffd_head 40 20 20 80) 2 3 False = Inr rfs \<and>
           length rfs = 2 \<and>
           (\<forall>row<2. length (rfs ! row) = 3 \<and>
              (\<forall>col<3.
                 rfs ! row ! col =
                   ((real col + 1/2) * 20 - 40 / 2, (real row + 1/2) * 20 - 40 / 2,
                    (real col + 1/2) * 20 + 40 / 2, (real row + 1/2) * 20 + 40 / 2))) \<and>
           (case rfs ! 0 ! 0 of (x0, y0, x1, y1) \<Rightarrow>
              ((x0 + x1) / 2, (y0 + y1) / 2) = (20 / 2, 20 / 2)))"
  using gen_rf_anchors_unclipped [of 2 3 "lffd_head 40 20 20 80"]
  by (simp add: lffd_head_def)

text \<open>
  C4, as stated, fails: the reconstruction with the unclipped centre
  \<open>((col + 0.5) * rf_stride, (row + 0.5) * rf_stride)\<close> does not give back the matched
  box at a cell whose anchor is clipped on one side only. In the worked example the cell
  \<open>(0, 0)\<close> of the first image is matched to the box \<open>(0, 0, 40, 40)\<close>; the regression
  target was normalised with the centre \<open>(15, 10)\<close>, and the reconstruction with
  \<open>(10, 10)\<close> yields \<open>(-5, 0, 35, 40)\<close>.
\<close>

theorem regression_round_trip_counterexample:
  "build_targets ex_head (1, 2) ex_boxes = Inr ex_targets \<and>
   t_reg_mask ex_targets ! 0 ! 0 ! 0 \<and>
   rf_center ex_head 0 0 = (10, 10) \<and>
   reconstruct ex_head (rf_center ex_head 0 0) (t_regs ex_targets ! 0 ! 0 ! 0) = (- 5, 0, 35, 40) \<and>
   reconstruct ex_head (rf_center ex_head 0 0) (t_regs ex_targets ! 0 ! 0 ! 0) \<noteq> ex_boxes ! 0 ! 0"
proof -
  have "rf_center ex_head 0 0 = (10, 10)"
    by (simp add: rf_center_def lffd_head_def)
  moreover from this
  have "reconstruct ex_head (rf_center ex_head 0 0) (t_regs ex_targets ! 0 ! 0 ! 0) = (- 5, 0, 35, 40)"
    by (simp add: reconstruct_def repeat_last_def lffd_head_def)
  ultimately show ?thesis
    using ex_build_targets by simp
qed

text \<open>
  C4, amended: for every cell where the regression mask is true, and \<open>rf_size \<noteq> 0\<close>,
  the reconstruction with the centre that \<^verbatim>\<open>build_targets\<close> itself uses (the midpoint
  of the clipped anchor, which is what the matcher received) yields exactly the
  ground-truth box whose index the matcher put into \<open>reg_mask\<close> at that cell, in exact
  arithmetic.
\<close>

theorem regression_round_trip:
  assumes "build_targets self (fh, fw) gt = Inr st" and "rf_size self \<noteq> 0"
    and "i < length gt" and "r < nat fh" and "c < nat fw"
    and "t_reg_mask st ! i ! r ! c"
  shows "\<exists>k<length (gt ! i).
           snd (matcher self (centers_grid self fh fw) (gt ! i)) ! r ! c = int k \<and>
           reconstruct self (clipped_center self fh fw r c) (t_regs st ! i ! r ! c) = gt ! i ! k"
proof -
  from build_targets_cell_empty(4) [OF assms(1,3) _ assms(4,5)] assms(6)
  have ne: "gt ! i \<noteq> []"
    by blast
  obtain cls_mask reg_mask
    where m: "matcher self (centers_grid self fh fw) (gt ! i) = (cls_mask, reg_mask)"
    by (cases "matcher self (centers_grid self fh fw) (gt ! i)")
  note cell = build_targets_cell [OF assms(1,3) ne m assms(4,5)]
  from cell(4) assms(6) have k0: "0 \<le> reg_mask ! r ! c"
    by simp
  let ?k = "nat (reg_mask ! r ! c)"
  from cell(6) [OF k0] have "?k < length (gt ! i)" .
  moreover from k0 m have "snd (matcher self (centers_grid self fh fw) (gt ! i)) ! r ! c = int ?k"
    by simp
  moreover from cell(5) k0 assms(2)
  have "reconstruct self (clipped_center self fh fw r c) (t_regs st ! i ! r ! c) = gt ! i ! ?k"
    by (simp add: reconstruct_normalize_reg)
  ultimately show ?thesis
    by blast
qed

theorem regression_round_trip_witness:
  "build_targets ex_head (1, 2) ex_boxes = Inr ex_targets \<and> rf_size ex_head \<noteq> 0 \<and>
   (0::nat) < length ex_boxes \<and> (0::nat) < nat 1 \<and> (0::nat) < nat 2 \<and>
   t_reg_mask ex_targets ! 0 ! 0 ! 0 \<and>
   clipped_center ex_head 1 2 0 0 = (15, 10) \<and>
   t_regs ex_targets ! 0 ! 0 ! 0 = (- (3 / 4), - (1 / 2), 5 / 4, 3 / 2) \<and>
   (\<exists>k<length (ex_boxes ! 0).
      snd (matcher ex_head (centers_grid ex_head 1 2) (ex_boxes ! 0)) ! 0 ! 0 = int k \<and>
      reconstruct ex_head (clipped_center ex_head 1 2 0 0) (t_regs ex_targets ! 0 ! 0 ! 0) =
        ex_boxes ! 0 ! k)"
proof -
  have h: "rf_size ex_head \<noteq> 0" "(0::nat) < length ex_boxes" "(0::nat) < nat 1" "(0::nat) < nat 2"
    "t_reg_mask ex_targets ! 0 ! 0 ! 0"
    by (simp_all add: lffd_head_def)
  have cc: "clipped_center ex_head 1 2 0 0 = (15, 10)"
    by (simp add: clipped_center_def clip_anchor_def rf_anchor_def rf_center_def clamp_def
        lffd_head_def)
  have v: "t_regs ex_targets ! 0 ! 0 ! 0 = (- (3 / 4), - (1 / 2), 5 / 4, 3 / 2)"
    by simp
  note t = regression_round_trip [OF ex_build_targets h]
  show ?thesis
    by (intro conjI ex_build_targets h cc v t)
qed

text \<open>
  C5: in the tensors that \<^verbatim>\<open>build_targets\<close> returns, no cell of any image is marked
  both ignore and positive, whatever the matcher answers.
\<close>

theorem ignore_objectness_exclusive:
  assumes "build_targets self (fh, fw) gt = Inr st"
    and "i < length gt" and "r < nat fh" and "c < nat fw"
  shows "\<not> (ignore st ! i ! r ! c \<and> t_objness_mask st ! i ! r ! c)"
proof (cases "gt ! i = []")
  case True
  from build_targets_cell_empty(5) [OF assms(1,2) True assms(3,4)] show ?thesis
    by simp
next
  case False
  obtain cls_mask reg_mask
    where m: "matcher self (centers_grid self fh fw) (gt ! i) = (cls_mask, reg_mask)"
    by (cases "matcher self (centers_grid self fh fw) (gt ! i)")
  note cell = build_targets_cell [OF assms(1,2) False m assms(3,4)]
  from cell(2,3) show ?thesis
    by simp
qed

theorem ignore_objectness_exclusive_witness:
  "build_targets ex_head (1, 2) ex_boxes = Inr ex_targets \<and>
   (2::nat) < length ex_boxes \<and> (0::nat) < nat 1 \<and> (0::nat) < nat 2 \<and>
   ignore ex_targets ! 2 ! 0 ! 0 \<and>
   \<not> (ignore ex_targets ! 2 ! 0 ! 0 \<and> t_objness_mask ex_targets ! 2 ! 0 ! 0)"
  using ignore_objectness_exclusive [OF ex_build_targets, of 2 0 0] ex_build_targets
  by simp

text \<open>
  C6: an image without ground-truth boxes is no error. With feature-map dimensions that
  are not negative, and a matcher whose answers for the other images of the batch the
  tensor library accepts, \<^verbatim>\<open>build_targets\<close> returns; the five tensors have one slice
  per image of the batch, and the slices of every image without boxes hold the defaults:
  \<open>cls\<close> all 0, \<open>regs\<close> all 0, the three masks all false.
\<close>

theorem empty_image_background:
  assumes "0 \<le> fh" and "0 \<le> fw"
    and "\<forall>g\<in>set gt. g \<noteq> [] \<longrightarrow>
           matcher_returns self (nat fh) (nat fw) (centers_grid self fh fw) g"
  shows "\<exists>st. build_targets self (fh, fw) gt = Inr st \<and>
           length (t_cls st) = length gt \<and> length (t_regs st) = length gt \<and>
           length (t_objness_mask st) = length gt \<and> length (t_reg_mask st) = length gt \<and>
           length (ignore st) = length gt \<and>
           (\<forall>i<length gt. gt ! i = [] \<longrightarrow>
              t_cls st ! i = replicate (nat fh) (replicate (nat fw) 0) \<and>
              t_regs st ! i = replicate (nat fh) (replicate (nat fw) (0, 0, 0, 0)) \<and>
              t_objness_mask st ! i = replicate (nat fh) (replicate (nat fw) False) \<and>
              t_reg_mask st ! i = replicate (nat fh) (replicate (nat fw) False) \<and>
              ignore st ! i = replicate (nat fh) (replicate (nat fw) False))"
proof -
  from build_targets_returns [OF assms] obtain st
    where st: "build_targets self (fh, fw) gt = Inr st" ..
  from targets_shape_lengths [OF build_targets_shape [OF st]]
  have "length (t_cls st) = length gt \<and> length (t_regs st) = length gt \<and>
           length (t_objness_mask st) = length gt \<and> length (t_reg_mask st) = length gt \<and>
           length (ignore st) = length gt" .
  moreover have "\<forall>i<length gt. gt ! i = [] \<longrightarrow>
              t_cls st ! i = replicate (nat fh) (replicate (nat fw) 0) \<and>
              t_regs st ! i = replicate (nat fh) (replicate (nat fw) (0, 0, 0, 0)) \<and>
              t_objness_mask st ! i = replicate (nat fh) (replicate (nat fw) False) \<and>
              t_reg_mask st ! i = replicate (nat fh) (replicate (nat fw) False) \<and>
              ignore st ! i = replicate (nat fh) (replicate (nat fw) False)"
    using build_targets_rows(2) [OF st] by (simp add: rows_at_def)
  ultimately show ?thesis
    using st by (intro exI [of _ st]) blast
qed

theorem empty_image_background_witness:
  "(0::int) \<le> 1 \<and> (0::int) \<le> 2 \<and>
   matcher_returns ex_head (nat 1) (nat 2) (centers_grid ex_head 1 2) (ex_boxes ! 0) \<and>
   matcher_returns ex_head (nat 1) (nat 2) (centers_grid ex_head 1 2) (ex_boxes ! 2) \<and>
   build_targets ex_head (1, 2) ex_boxes = Inr ex_targets \<and>
   ex_boxes ! 1 = [] \<and>
   t_cls ex_targets ! 1 = [[0, 0]] \<and>
   t_regs ex_targets ! 1 = [[(0, 0, 0, 0), (0, 0, 0, 0)]] \<and>
   t_objness_mask ex_targets ! 1 = [[False, False]] \<and>
   t_reg_mask ex_targets ! 1 = [[False, False]] \<and>
   ignore ex_targets ! 1 = [[False, False]]"
proof -
  have m: "matcher_returns ex_head (nat 1) (nat 2) (centers_grid ex_head 1 2) (ex_boxes ! 0)"
    "matcher_returns ex_head (nat 1) (nat 2) (centers_grid ex_head 1 2) (ex_boxes ! 2)"
    by code_simp+
  then have h: "\<forall>g\<in>set ex_boxes. g \<noteq> [] \<longrightarrow>
      matcher_returns ex_head (nat 1) (nat 2) (centers_grid ex_head 1 2) g"
    by simp
  from empty_image_background [OF _ _ h] obtain st
    where "build_targets ex_head (1, 2) ex_boxes = Inr st"
      and "\<forall>i<length ex_boxes. ex_boxes ! i = [] \<longrightarrow>
              t_cls st ! i = replicate (nat 1) (replicate (nat 2) 0) \<and>
              t_regs st ! i = replicate (nat 1) (replicate (nat 2) (0, 0, 0, 0)) \<and>
              t_objness_mask st ! i = replicate (nat 1) (replicate (nat 2) False) \<and>
              t_reg_mask st ! i = replicate (nat 1) (replicate (nat 2) False) \<and>
              ignore st ! i = replicate (nat 1) (replicate (nat 2) False)"
    by auto
  with ex_build_targets m show ?thesis
    by (simp add: numeral_2_eq_2)
qed

text \<open>
  C7: for \<open>fmaph, fmapw \<ge> 1\<close>, \<^verbatim>\<open>gen_rf_anchors\<close> with \<^verbatim>\<open>clip=True\<close> returns
  the anchors with every x-coordinate clamped to \<open>[0, fmapw * rf_stride]\<close> and every
  y-coordinate clamped to \<open>[0, fmaph * rf_stride]\<close>: no coordinate exceeds its bound,
  and none is negative (the interval is not empty when \<open>rf_stride \<ge> 0\<close>, which the
  input constraint \<open>rf_stride > 0\<close> of the anchor generator gives).
\<close>

theorem gen_rf_anchors_clipped:
  assumes "1 \<le> fmaph" and "1 \<le> fmapw"
  shows "\<exists>rfs. gen_rf_anchors self fmaph fmapw True = Inr rfs \<and>
           length rfs = nat fmaph \<and>
           (\<forall>row<nat fmaph. length (rfs ! row) = nat fmapw \<and>
              (\<forall>col<nat fmapw.
                 case rfs ! row ! col of (xmin, ymin, xmax, ymax) \<Rightarrow>
                   (case rf_anchor self row col of (x0, y0, x1, y1) \<Rightarrow>
                      xmin = clamp x0 0 (real_of_int (fmapw * rf_stride self)) \<and>
                      ymin = clamp y0 0 (real_of_int (fmaph * rf_stride self)) \<and>
                      xmax = clamp x1 0 (real_of_int (fmapw * rf_stride self)) \<and>
                      ymax = clamp y1 0 (real_of_int (fmaph * rf_stride self))) \<and>
                   xmin \<le> real_of_int (fmapw * rf_stride self) \<and>
                   xmax \<le> real_of_int (fmapw * rf_stride self) \<and>
                   ymin \<le> real_of_int (fmaph * rf_stride self) \<and>
                   ymax \<le> real_of_int (fmaph * rf_stride self) \<and>
                   (0 \<le> rf_stride self \<longrightarrow> 0 \<le> xmin \<and> 0 \<le> xmax \<and> 0 \<le> ymin \<and> 0 \<le> ymax)))"
proof -
  let ?rfs = "map (\<lambda>row. map (\<lambda>col. clip_anchor self fmaph fmapw (rf_anchor self row col))
                [0..<nat fmapw]) [0..<nat fmaph]"
  from assms have "gen_rf_anchors self fmaph fmapw True = Inr ?rfs"
    by (simp add: gen_rf_anchors_closed)
  moreover have "length ?rfs = nat fmaph"
    by simp
  moreover have "\<forall>row<nat fmaph. length (?rfs ! row) = nat fmapw \<and>
              (\<forall>col<nat fmapw.
                 case ?rfs ! row ! col of (xmin, ymin, xmax, ymax) \<Rightarrow>
                   (case rf_anchor self row col of (x0, y0, x1, y1) \<Rightarrow>
                      xmin = clamp x0 0 (real_of_int (fmapw * rf_stride self)) \<and>
                      ymin = clamp y0 0 (real_of_int (fmaph * rf_stride self)) \<and>
                      xmax = clamp x1 0 (real_of_int (fmapw * rf_stride self)) \<and>
                      ymax = clamp y1 0 (real_of_int (fmaph * rf_stride self))) \<and>
                   xmin \<le> real_of_int (fmapw * rf_stride self) \<and>
                   xmax \<le> real_of_int (fmapw * rf_stride self) \<and>
                   ymin \<le> real_of_int (fmaph * rf_stride self) \<and>
                   ymax \<le> real_of_int (fmaph * rf_stride self) \<and>
                   (0 \<le> rf_stride self \<longrightarrow> 0 \<le> xmin \<and> 0 \<le> xmax \<and> 0 \<le> ymin \<and> 0 \<le> ymax))"
  proof (intro allI impI conjI)
    fix row col
    assume rc: "row < nat fmaph" "col < nat fmapw"
    from assms have nn: "0 \<le> rf_stride self \<Longrightarrow>
        (0::real) \<le> real_of_int (fmapw * rf_stride self) \<and>
        (0::real) \<le> real_of_int (fmaph * rf_stride self)"
      by simp
    obtain x0 y0 x1 y1 where a: "rf_anchor self row col = (x0, y0, x1, y1)"
      by (cases "rf_anchor self row col")
    from rc have "?rfs ! row ! col = clip_anchor self fmaph fmapw (rf_anchor self row col)"
      by simp
    with a nn show "case ?rfs ! row ! col of (xmin, ymin, xmax, ymax) \<Rightarrow>
                   (case rf_anchor self row col of (x0, y0, x1, y1) \<Rightarrow>
                      xmin = clamp x0 0 (real_of_int (fmapw * rf_stride self)) \<and>
                      ymin = clamp y0 0 (real_of_int (fmaph * rf_stride self)) \<and>
                      xmax = clamp x1 0 (real_of_int (fmapw * rf_stride self)) \<and>
                      ymax = clamp y1 0 (real_of_int (fmaph * rf_stride self))) \<and>
                   xmin \<le> real_of_int (fmapw * rf_stride self) \<and>
                   xmax \<le> real_of_int (fmapw * rf_stride self) \<and>
                   ymin \<le> real_of_int (fmaph * rf_stride self) \<and>
                   ymax \<le> real_of_int (fmaph * rf_stride self) \<and>
                   (0 \<le> rf_stride self \<longrightarrow> 0 \<le> xmin \<and> 0 \<le> xmax \<and> 0 \<le> ymin \<and> 0 \<le> ymax)"
      by (simp add: clip_anchor_def clamp_upper clamp_lower del: of_int_mult)
  qed simp
  ultimately show ?thesis
    by (intro exI [of _ ?rfs]) blast
qed

theorem gen_rf_anchors_clipped_witness:
  "(1::int) \<le> 2 \<and> (1::int) \<le> 2 \<and>
   gen_rf_anchors (lffd_head 40 20 20 80) 2 2 True =
     Inr [[(0, 0, 30, 30), (10, 0, 40, 30)], [(0, 10, 30, 40), (10, 10, 40, 40)]] \<and>
   (\<exists>rfs. gen_rf_anchors (lffd_head 40 20 20 80) 2 2 True = Inr rfs \<and>
           length rfs = 2 \<and>
           (\<forall>row<2. length (rfs ! row) = 2 \<and>
              (\<forall>col<2.
                 case rfs ! row ! col of (xmin, ymin, xmax, ymax) \<Rightarrow>
                   (case rf_anchor (lffd_head 40 20 20 80) row col of (x0, y0, x1, y1) \<Rightarrow>
                      xmin = clamp x0 0 40 \<and> ymin = clamp y0 0 40 \<and>
                      xmax = clamp x1 0 40 \<and> ymax = clamp y1 0 40) \<and>
                   xmin \<le> 40 \<and> xmax \<le> 40 \<and> ymin \<le> 40 \<and> ymax \<le> 40 \<and>
                   ((0::int) \<le> 20 \<longrightarrow> 0 \<le> xmin \<and> 0 \<le> xmax \<and> 0 \<le> ymin \<and> 0 \<le> ymax))))"
proof -
  have "gen_rf_anchors (lffd_head 40 20 20 80) 2 2 True =
     Inr [[(0, 0, 30, 30), (10, 0, 40, 30)], [(0, 10, 30, 40), (10, 10, 40, 40)]]"
    by code_simp
  with gen_rf_anchors_clipped [of 2 2 "lffd_head 40 20 20 80"] show ?thesis
    by (simp add: lffd_head_def)
qed




text \<open>
  C9: with \<^verbatim>\<open>clip=False\<close> every anchor is exactly \<open>rf_size\<close> wide and \<open>rf_size\<close>
  high; hence, when \<open>rf_size > rf_stride\<close>, the anchors of the first column and row
  start at negative coordinates and those of the last column and row end beyond
  \<open>fmapw * rf_stride\<close> and \<open>fmaph * rf_stride\<close>.
\<close>

theorem gen_rf_anchors_extent:
  assumes "1 \<le> fmaph" and "1 \<le> fmapw"
  shows "\<exists>rfs. gen_rf_anchors self fmaph fmapw False = Inr rfs \<and>
           (\<forall>row<nat fmaph. \<forall>col<nat fmapw.
              case rfs ! row ! col of (xmin, ymin, xmax, ymax) \<Rightarrow>
                xmax - xmin = real_of_int (rf_size self) \<and>
                ymax - ymin = real_of_int (rf_size self) \<and>
                (rf_stride self < rf_size self \<longrightarrow>
                   (col = 0 \<longrightarrow> xmin < 0) \<and> (row = 0 \<longrightarrow> ymin < 0) \<and>
                   (col = nat fmapw - 1 \<longrightarrow> real_of_int (fmapw * rf_stride self) < xmax) \<and>
                   (row = nat fmaph - 1 \<longrightarrow> real_of_int (fmaph * rf_stride self) < ymax)))"
proof -
  let ?rfs = "map (\<lambda>row. map (rf_anchor self row) [0..<nat fmapw]) [0..<nat fmaph]"
  from assms have "gen_rf_anchors self fmaph fmapw False = Inr ?rfs"
    by (simp add: gen_rf_anchors_closed)
  moreover have "\<forall>row<nat fmaph. \<forall>col<nat fmapw.
              case ?rfs ! row ! col of (xmin, ymin, xmax, ymax) \<Rightarrow>
                xmax - xmin = real_of_int (rf_size self) \<and>
                ymax - ymin = real_of_int (rf_size self) \<and>
                (rf_stride self < rf_size self \<longrightarrow>
                   (col = 0 \<longrightarrow> xmin < 0) \<and> (row = 0 \<longrightarrow> ymin < 0) \<and>
                   (col = nat fmapw - 1 \<longrightarrow> real_of_int (fmapw * rf_stride self) < xmax) \<and>
                   (row = nat fmaph - 1 \<longrightarrow> real_of_int (fmaph * rf_stride self) < ymax))"
  proof (intro allI impI)
    fix row col
    assume rc: "row < nat fmaph" "col < nat fmapw"
    have last: "real (nat n - 1) = real_of_int n - 1" if "1 \<le> n" for n
      using that by simp
    from rc have "?rfs ! row ! col = rf_anchor self row col"
      by simp
    then show "case ?rfs ! row ! col of (xmin, ymin, xmax, ymax) \<Rightarrow>
                xmax - xmin = real_of_int (rf_size self) \<and>
                ymax - ymin = real_of_int (rf_size self) \<and>
                (rf_stride self < rf_size self \<longrightarrow>
                   (col = 0 \<longrightarrow> xmin < 0) \<and> (row = 0 \<longrightarrow> ymin < 0) \<and>
                   (col = nat fmapw - 1 \<longrightarrow> real_of_int (fmapw * rf_stride self) < xmax) \<and>
                   (row = nat fmaph - 1 \<longrightarrow> real_of_int (fmaph * rf_stride self) < ymax))"
      using assms
      by (simp add: rf_anchor_def rf_center_def last algebra_simps)
  qed
  ultimately show ?thesis
    by (intro exI [of _ ?rfs]) blast
qed

theorem gen_rf_anchors_extent_witness:
  "(1::int) \<le> 2 \<and> (1::int) \<le> 2 \<and>
   gen_rf_anchors (lffd_head 40 20 20 80) 2 2 False =
     Inr [[(- 10, - 10, 30, 30), (10, - 10, 50, 30)], [(- 10, 10, 30, 50), (10, 10, 50, 50)]] \<and>
   (\<exists>rfs. gen_rf_anchors (lffd_head 40 20 20 80) 2 2 False = Inr rfs \<and>
           (\<forall>row<2. \<forall>col<2.
              case rfs ! row ! col of (xmin, ymin, xmax, ymax) \<Rightarrow>
                xmax - xmin = 40 \<and> ymax - ymin = 40 \<and>
                ((20::int) < 40 \<longrightarrow>
                   (col = 0 \<longrightarrow> xmin < 0) \<and> (row = 0 \<longrightarrow> ymin < 0) \<and>
                   (col = 1 \<longrightarrow> 40 < xmax) \<and> (row = 1 \<longrightarrow> 40 < ymax))))"
proof -
  have "gen_rf_anchors (lffd_head 40 20 20 80) 2 2 False =
     Inr [[(- 10, - 10, 30, 30), (10, - 10, 50, 30)], [(- 10, 10, 30, 50), (10, 10, 50, 50)]]"
    by code_simp
  with gen_rf_anchors_extent [of 2 2 "lffd_head 40 20 20 80"] show ?thesis
    by (simp add: lffd_head_def)
qed

text \<open>
  C10, as stated, fails twice. The centre that the normalisation subtracts is the
  midpoint of the clipped anchor, not the anchor centre
  \<open>((col + 0.5) * rf_stride, (row + 0.5) * rf_stride)\<close>: in the worked example the cell
  \<open>(0, 1)\<close> of the third image, where \<open>reg_mask\<close> is false, holds \<open>-5/4\<close> on the x
  pair, and the formula with the anchor centre \<open>(30, 10)\<close> gives \<open>-3/2\<close>. And the values
  are not always different from zero: with \<open>rf_stride = 0\<close>, which the code accepts,
  every centre is \<open>(0, 0)\<close> and an unmatched cell of an image with a box holds zero.
\<close>

theorem unmatched_regs_counterexample:
  "build_targets ex_head (1, 2) ex_boxes = Inr ex_targets \<and>
   ex_boxes ! 2 = [(0, 0, 19, 19)] \<and> \<not> t_reg_mask ex_targets ! 2 ! 0 ! 1 \<and>
   t_regs ex_targets ! 2 ! 0 ! 1 = (- (5 / 4), - (1 / 2), - (5 / 4), - (1 / 2)) \<and>
   rf_center ex_head 0 1 = (30, 10) \<and>
   normalize_reg ex_head (0, 0, 0, 0) (repeat_last (rf_center ex_head 0 1)) =
     (- (3 / 2), - (1 / 2), - (3 / 2), - (1 / 2)) \<and>
   t_regs ex_targets ! 2 ! 0 ! 1 \<noteq>
     normalize_reg ex_head (0, 0, 0, 0) (repeat_last (rf_center ex_head 0 1)) \<and>
   build_targets (lffd_head 40 0 20 80) (1, 1) [[(1, 1, 41, 41)]] =
     Inr \<lparr>t_cls = [[[0]]], t_regs = [[[(0, 0, 0, 0)]]], t_objness_mask = [[[False]]],
          t_reg_mask = [[[False]]], ignore = [[[False]]]\<rparr>"
proof -
  have c: "rf_center ex_head 0 1 = (30, 10)"
    by (simp add: rf_center_def lffd_head_def)
  then have n: "normalize_reg ex_head (0, 0, 0, 0) (repeat_last (rf_center ex_head 0 1)) =
     (- (3 / 2), - (1 / 2), - (3 / 2), - (1 / 2))"
    by (simp add: normalize_reg_def repeat_last_def lffd_head_def)
  have z: "build_targets (lffd_head 40 0 20 80) (1, 1) [[(1, 1, 41, 41)]] =
     Inr \<lparr>t_cls = [[[0]]], t_regs = [[[(0, 0, 0, 0)]]], t_objness_mask = [[[False]]],
          t_reg_mask = [[[False]]], ignore = [[[False]]]\<rparr>"
    by code_simp
  have v: "ex_boxes ! 2 = [(0, 0, 19, 19)]" "\<not> t_reg_mask ex_targets ! 2 ! 0 ! 1"
    "t_regs ex_targets ! 2 ! 0 ! 1 = (- (5 / 4), - (1 / 2), - (5 / 4), - (1 / 2))"
    by simp_all
  have d: "t_regs ex_targets ! 2 ! 0 ! 1 \<noteq>
     normalize_reg ex_head (0, 0, 0, 0) (repeat_last (rf_center ex_head 0 1))"
    unfolding n v(3) by simp
  show ?thesis
    by (intro conjI ex_build_targets v c n d z)
qed

text \<open>
  C10, amended: the normalisation at the end of the loop body is applied to every cell of
  an image that has a box. For \<open>rf_size \<noteq> 0\<close>, where \<open>reg_mask\<close> is false the
  regression target of such an image is therefore \<open>(0 - centre) / (rf_size * 0.5)\<close>,
  the centre being the one that \<^verbatim>\<open>build_targets\<close> computes and passes to the matcher
  (the midpoint of the clipped anchor), repeated over the x and y pairs; these four
  values are not zero when moreover \<open>rf_stride \<noteq> 0\<close>. An image without boxes keeps the
  value zero.
\<close>

theorem unmatched_regs_normalized:
  assumes "build_targets self (fh, fw) gt = Inr st"
    and "i < length gt" and "r < nat fh" and "c < nat fw"
    and "\<not> t_reg_mask st ! i ! r ! c"
  shows "(gt ! i \<noteq> [] \<and> rf_size self \<noteq> 0 \<longrightarrow>
            t_regs st ! i ! r ! c =
              (case clipped_center self fh fw r c of (cx, cy) \<Rightarrow>
                 ((0 - cx) / (real_of_int (rf_size self) * (1/2)),
                  (0 - cy) / (real_of_int (rf_size self) * (1/2)),
                  (0 - cx) / (real_of_int (rf_size self) * (1/2)),
                  (0 - cy) / (real_of_int (rf_size self) * (1/2)))) \<and>
            (rf_stride self \<noteq> 0 \<longrightarrow>
               (case t_regs st ! i ! r ! c of (t0, t1, t2, t3) \<Rightarrow>
                  t0 \<noteq> 0 \<and> t1 \<noteq> 0 \<and> t2 \<noteq> 0 \<and> t3 \<noteq> 0))) \<and>
         (gt ! i = [] \<longrightarrow> t_regs st ! i ! r ! c = (0, 0, 0, 0))"
proof (cases "gt ! i = []")
  case True
  with build_targets_cell_empty(2) [OF assms(1,2) True assms(3,4)] show ?thesis
    by simp
next
  case False
  obtain cls_mask reg_mask
    where m: "matcher self (centers_grid self fh fw) (gt ! i) = (cls_mask, reg_mask)"
    by (cases "matcher self (centers_grid self fh fw) (gt ! i)")
  note cell = build_targets_cell [OF assms(1,2) False m assms(3,4)]
  obtain cx cy where cc: "clipped_center self fh fw r c = (cx, cy)"
    by (cases "clipped_center self fh fw r c")
  from cell(4) assms(5) have "\<not> 0 \<le> reg_mask ! r ! c"
    by simp
  with cell(5) cc have regs: "t_regs st ! i ! r ! c =
      ((0 - cx) / (real_of_int (rf_size self) * (1/2)),
       (0 - cy) / (real_of_int (rf_size self) * (1/2)),
       (0 - cx) / (real_of_int (rf_size self) * (1/2)),
       (0 - cy) / (real_of_int (rf_size self) * (1/2)))"
    by (simp add: normalize_reg_def repeat_last_def)
  have "cx \<noteq> 0 \<and> cy \<noteq> 0" if "rf_stride self \<noteq> 0"
    using clipped_center_nonzero [OF that assms(3,4)] cc by simp
  with regs cc False show ?thesis
    by auto
qed

theorem unmatched_regs_normalized_witness:
  "build_targets ex_head (1, 2) ex_boxes = Inr ex_targets \<and>
   (2::nat) < length ex_boxes \<and> (0::nat) < nat 1 \<and> (1::nat) < nat 2 \<and>
   \<not> t_reg_mask ex_targets ! 2 ! 0 ! 1 \<and>
   ex_boxes ! 2 \<noteq> [] \<and> rf_size ex_head \<noteq> 0 \<and> rf_stride ex_head \<noteq> 0 \<and>
   clipped_center ex_head 1 2 0 1 = (25, 10) \<and>
   t_regs ex_targets ! 2 ! 0 ! 1 =
     (case clipped_center ex_head 1 2 0 1 of (cx, cy) \<Rightarrow>
        ((0 - cx) / (real_of_int (rf_size ex_head) * (1/2)),
         (0 - cy) / (real_of_int (rf_size ex_head) * (1/2)),
         (0 - cx) / (real_of_int (rf_size ex_head) * (1/2)),
         (0 - cy) / (real_of_int (rf_size ex_head) * (1/2)))) \<and>
   (case t_regs ex_targets ! 2 ! 0 ! 1 of (t0, t1, t2, t3) \<Rightarrow>
      t0 \<noteq> 0 \<and> t1 \<noteq> 0 \<and> t2 \<noteq> 0 \<and> t3 \<noteq> 0) \<and>
   (1::nat) < length ex_boxes \<and> \<not> t_reg_mask ex_targets ! 1 ! 0 ! 1 \<and> ex_boxes ! 1 = [] \<and>
   t_regs ex_targets ! 1 ! 0 ! 1 = (0, 0, 0, 0)"
proof -
  have h: "(2::nat) < length ex_boxes" "(0::nat) < nat 1" "(1::nat) < nat 2"
    "\<not> t_reg_mask ex_targets ! 2 ! 0 ! 1"
    by simp_all
  have g: "ex_boxes ! 2 \<noteq> []" "rf_size ex_head \<noteq> 0" "rf_stride ex_head \<noteq> 0"
    by (simp_all add: lffd_head_def)
  have cc: "clipped_center ex_head 1 2 0 1 = (25, 10)"
    by (simp add: clipped_center_def clip_anchor_def rf_anchor_def rf_center_def clamp_def
        lffd_head_def)
  note t = unmatched_regs_normalized [OF ex_build_targets h, THEN conjunct1, THEN mp,
      OF conjI [OF g(1,2)]]
  note a = t [THEN conjunct1]
  note b = t [THEN conjunct2, THEN mp, OF g(3)]
  have h': "(1::nat) < length ex_boxes" "(0::nat) < nat 1" "(1::nat) < nat 2"
    "\<not> t_reg_mask ex_targets ! 1 ! 0 ! 1"
    by simp_all
  have g': "ex_boxes ! 1 = []"
    by simp
  note e = unmatched_regs_normalized [OF ex_build_targets h', THEN conjunct2, THEN mp, OF g']
  show ?thesis
    by (intro conjI ex_build_targets h g cc a b h'(1,4) g' e)
qed

end
